theory Spec2Isabelle
  imports Main "HOL-Library.AList"
begin

section \<open>Scope\<close>

text \<open>
  The Redis-backed services of CoSim as functions on explicit states: the WebRTC signaling
  server (\<open>webrtc-signaling/server.js\<close> with \<open>stateStore.js\<close>) and the two Redis
  bridges of the collaboration server (\<open>collab-server/redisPersistence.js\<close> and
  \<open>redisAwareness.js\<close>). Redis commands are taken to succeed. A handler of the signaling
  server that awaits the state store is given \<open>await\<close> by \<open>await\<close>, so that what other
  handlers and other nodes do in between is not excluded. The heartbeat timer, the health
  endpoint and the shutdown of the servers take no part in the properties below.
\<close>

section \<open>JavaScript values that the services test for truthiness\<close>

text \<open>
  The signaling server reads its messages with \<open>JSON.parse\<close> and tests fields with
  \<open>!x\<close>. Identifiers (\<open>roomId\<close>, \<open>role\<close>, \<open>targetId\<close>, client and server ids) are
  strings in the protocol; a field that is absent, \<open>undefined\<close> or \<open>null\<close> is \<open>None\<close>.
  The empty string is falsy as well.
\<close>

fun truthy :: "string option \<Rightarrow> bool" where
  "truthy None = False"
| "truthy (Some v) = (v \<noteq> [])"

text \<open>\<open>a || d\<close> on strings.\<close>

fun js_or :: "string option \<Rightarrow> string \<Rightarrow> string" where
  "js_or None d = d"
| "js_or (Some v) d = (if v = [] then d else v)"

text \<open>
  The payloads of offer, answer and ice-candidate messages are arbitrary JSON values
  (numbers are kept integral here; only their truthiness is ever inspected).
\<close>

datatype json =
    JNull
  | JBool bool
  | JNum int
  | JStr string
  | JArr "json list"
  | JObj "(string \<times> json) list"

fun truthy_json :: "json option \<Rightarrow> bool" where
  "truthy_json None = False"
| "truthy_json (Some JNull) = False"
| "truthy_json (Some (JBool b)) = b"
| "truthy_json (Some (JNum n)) = (n \<noteq> 0)"
| "truthy_json (Some (JStr v)) = (v \<noteq> [])"
| "truthy_json (Some (JArr _)) = True"
| "truthy_json (Some (JObj _)) = True"

text \<open>The value of a field that has been tested truthy.\<close>

fun json_value :: "json option \<Rightarrow> json" where
  "json_value None = JNull"
| "json_value (Some v) = v"

section \<open>The Redis substrate as used by \<open>webrtc-signaling/stateStore.js\<close>\<close>

text \<open>
  Only the commands the state store issues are modelled. A set key holds its members in
  insertion order (Redis leaves the order of \<open>SMEMBERS\<close> open); the empty list is the
  absent key, since Redis removes a set with its last member. A hash key holds a field
  map; the empty map is the absent key. Every \<open>multi() ... exec()\<close> is executed as one
  unit and recorded in \<open>txlog\<close>. Commands are assumed to succeed.
\<close>

datatype redis_cmd =
    SADD string string
  | SREM string string
  | HSET string "(string \<times> string) list"
  | DEL string

record redis =
  sets :: "string \<Rightarrow> string list"
  hashes :: "string \<Rightarrow> (string \<rightharpoonup> string)"
  txlog :: "redis_cmd list list"

definition redis_empty :: redis where
  "redis_empty = \<lparr> sets = (\<lambda>_. []), hashes = (\<lambda>_. Map.empty), txlog = [] \<rparr>"

fun apply_cmd :: "redis_cmd \<Rightarrow> redis \<Rightarrow> redis" where
  "apply_cmd (SADD k v) r =
     r\<lparr>sets := (sets r)(k := (if v \<in> set (sets r k) then sets r k else sets r k @ [v]))\<rparr>"
| "apply_cmd (SREM k v) r = r\<lparr>sets := (sets r)(k := removeAll v (sets r k))\<rparr>"
| "apply_cmd (HSET k fvs) r = r\<lparr>hashes := (hashes r)(k := hashes r k ++ map_of (rev fvs))\<rparr>"
| "apply_cmd (DEL k) r = r\<lparr>sets := (sets r)(k := []), hashes := (hashes r)(k := Map.empty)\<rparr>"

definition multi_exec :: "redis_cmd list \<Rightarrow> redis \<Rightarrow> redis" where
  "multi_exec cmds r = (fold apply_cmd cmds r)\<lparr>txlog := txlog r @ [cmds]\<rparr>"

definition smembers :: "redis \<Rightarrow> string \<Rightarrow> string list" where
  "smembers r k = sets r k"

definition scard :: "redis \<Rightarrow> string \<Rightarrow> nat" where
  "scard r k = length (sets r k)"

definition hgetall :: "redis \<Rightarrow> string \<Rightarrow> (string \<rightharpoonup> string)" where
  "hgetall r k = hashes r k"

subsection \<open>Key layout\<close>

definition ROOM_INDEX_KEY :: string where
  "ROOM_INDEX_KEY = ''signaling:rooms''"

definition clientKey :: "string \<Rightarrow> string" where
  "clientKey clientId = ''signaling:clients:'' @ clientId"

definition roomMembersKey :: "string \<Rightarrow> string" where
  "roomMembersKey roomId = ''signaling:rooms:'' @ roomId @ '':members''"

subsection \<open>StateStore\<close>

text \<open>
  \<open>sid\<close> is \<open>this.serverId\<close>; \<open>now\<close> is \<open>Date.now().toString()\<close>, supplied by the
  environment.
\<close>

definition registerClient ::
  "string \<Rightarrow> string \<Rightarrow> string option \<Rightarrow> string option \<Rightarrow> string option \<Rightarrow> redis \<Rightarrow> redis" where
  "registerClient sid now cid roomId role r =
     (if \<not> truthy cid \<or> \<not> truthy roomId then r
      else multi_exec
        [SADD ROOM_INDEX_KEY (js_or roomId []),
         SADD (roomMembersKey (js_or roomId [])) (js_or cid []),
         HSET (clientKey (js_or cid []))
           [(''id'', js_or cid []),
            (''roomId'', js_or roomId []),
            (''role'', js_or role []),
            (''serverId'', sid),
            (''updatedAt'', now)]] r)"

definition getClient :: "redis \<Rightarrow> string option \<Rightarrow> (string \<rightharpoonup> string) option" where
  "getClient r clientId =
     (if \<not> truthy clientId then None
      else let data = hgetall r (clientKey (js_or clientId []))
           in if \<not> truthy (data ''id'') then None else Some data)"

definition participantOf :: "redis \<Rightarrow> string \<Rightarrow> (string \<times> string) list" where
  "participantOf r memberId =
     (let data = hgetall r (clientKey memberId)
      in if truthy (data ''id'')
         then [(js_or (data ''id'') [], js_or (data ''role'') ''viewer'')]
         else [])"

definition listParticipants :: "redis \<Rightarrow> string option \<Rightarrow> (string \<times> string) list" where
  "listParticipants r roomId =
     (if \<not> truthy roomId then []
      else let memberIds = smembers r (roomMembersKey (js_or roomId []))
           in if memberIds = [] then []
              else concat (map (participantOf r) memberIds))"

text \<open>
  \<open>removeClient\<close> awaits each of its commands: the \<open>multi\<close> that deletes the client
  hash and removes the membership, then \<open>SCARD\<close>, then, when the count is 0, the
  \<open>multi\<close> that deletes the member-set key and the index entry. Whatever is issued on
  the store between two of them is served between them, so the three are kept apart; the
  server's tasks below put them together. \<open>listParticipants\<close> awaits \<open>SMEMBERS\<close> and
  then the pipeline of \<open>HGETALL\<close>; the definition above is its result when both are
  served on the same store.
\<close>

definition removeClient_tx :: "string \<Rightarrow> string option \<Rightarrow> redis \<Rightarrow> redis" where
  "removeClient_tx cid roomId r =
     multi_exec
       (DEL (clientKey cid) #
        (if truthy roomId then [SREM (roomMembersKey (js_or roomId [])) cid] else [])) r"

definition removeClient_gc :: "string \<Rightarrow> nat \<Rightarrow> redis \<Rightarrow> redis" where
  "removeClient_gc rid remaining r =
     (if remaining = 0
      then multi_exec [DEL (roomMembersKey rid), SREM ROOM_INDEX_KEY rid] r
      else r)"

section \<open>The signaling server, \<open>webrtc-signaling/server.js\<close>\<close>

text \<open>
  A WebSocket is a handle that names one socket object for good; \<open>openWs\<close> is
  \<open>ws.readyState === WebSocket.OPEN\<close>. The frames written with \<open>ws.send\<close> are
  collected in \<open>outbox\<close>, the payloads published on \<open>signaling:relay\<close> in
  \<open>published\<close>. \<open>clients\<close> is the JavaScript \<open>Map\<close> from sockets to client objects
  in insertion order; a room of \<open>rooms\<close> is a \<open>Set\<close> of sockets in insertion order.
\<close>

type_synonym ws = nat

record client =
  cl_id :: string
  cl_roomId :: "string option"
  cl_role :: "string option"

datatype server_msg =
    Welcome string
  | ErrorMsg string
  | Joined string string "(string \<times> string) list"
  | PeerJoined string string
  | PeerLeft string
  | OfferMsg string json
  | AnswerMsg string json
  | IceCandidateMsg string json

record relay_payload =
  originServerId :: "string option"
  targetServerId :: "string option"
  targetId :: "string option"
  message :: "server_msg option"

datatype client_msg =
    Join "string option" "string option"
  | Offer "string option" "json option"
  | Answer "string option" "json option"
  | IceCandidate "string option" "json option"
  | Leave
  | Unknown string

datatype js_error = TypeError | DecodeError

record server =
  clients :: "(ws \<times> client) list"
  rooms :: "string \<rightharpoonup> ws list"
  store :: redis
  serverId :: string
  openWs :: "ws \<Rightarrow> bool"
  outbox :: "(ws \<times> server_msg) list"
  published :: "relay_payload list"

definition server_init :: "string \<Rightarrow> server" where
  "server_init sid =
     \<lparr> clients = [], rooms = Map.empty, store = redis_empty, serverId = sid,
       openWs = (\<lambda>_. True), outbox = [], published = [] \<rparr>"

definition send :: "server \<Rightarrow> ws \<Rightarrow> server_msg \<Rightarrow> server" where
  "send s w m = (if openWs s w then s\<lparr>outbox := outbox s @ [(w, m)]\<rparr> else s)"

definition broadcast :: "server \<Rightarrow> ws \<Rightarrow> string \<Rightarrow> server_msg \<Rightarrow> server" where
  "broadcast s sender roomId m =
     (case rooms s roomId of
        None \<Rightarrow> s
      | Some room \<Rightarrow> fold (\<lambda>w st. if w \<noteq> sender then send st w m else st) room s)"

definition findClientById :: "server \<Rightarrow> string \<Rightarrow> ws option" where
  "findClientById s clientId =
     map_option fst (find (\<lambda>(w, c). cl_id c = clientId) (clients s))"

subsection \<open>Handlers and their suspension\<close>

text \<open>
  The handlers are \<open>async\<close> functions. Every \<open>await\<close> on the state store suspends the
  handler until Redis has answered, and the \<open>message\<close> and \<open>close\<close> listeners are not
  awaited by the socket: a later event of the same or another client starts its own
  handler while earlier ones are suspended, and other nodes write the same Redis. A
  handler is therefore given from its call to its first \<open>await\<close>: it yields the new state
  and the tasks it leaves suspended (none or one). A task is the point where a handler
  waits, with the locals it captured. A command takes effect on the store when it is
  issued; a handler resumes when the reply arrives, and the replies of a connection
  arrive in the order of issue, so the tasks of a node form a queue. A client object that
  has been deleted from \<open>clients\<close> is still written by the tasks that captured it; nothing
  reads it any more.
\<close>

text \<open>
  What the caller of \<open>handleLeave\<close> does once \<open>handleLeave\<close> has returned: nothing (a
  leave message), the rest of \<open>handleJoin\<close> with the time, room and role of the join, or
  \<open>clients.delete(ws)\<close> (\<open>handleDisconnect\<close>).
\<close>

datatype cont = K_done | K_join string string string | K_disconnect

datatype task =
    AwaitRemoveTx ws string string cont
  | AwaitScard ws string string nat cont
  | AwaitRemoveGc ws string cont
  | AwaitRegister ws string string string
  | AwaitMembers ws string string string "string list"
  | AwaitPipeline ws string string string "(string \<times> string) list"
  | AwaitGetClient ws string server_msg bool "(string \<rightharpoonup> string) option"

subsection \<open>Connection\<close>

text \<open>\<open>clientId\<close> is the value of \<open>uuidv4()\<close>.\<close>

definition on_connection :: "server \<Rightarrow> ws \<Rightarrow> string \<Rightarrow> server" where
  "on_connection s w clientId =
     send (s\<lparr>clients := AList.update w \<lparr>cl_id = clientId, cl_roomId = None, cl_role = None\<rparr> (clients s)\<rparr>)
       w (Welcome clientId)"

subsection \<open>Join\<close>

definition join_local :: "server \<Rightarrow> ws \<Rightarrow> string \<Rightarrow> string \<Rightarrow> server" where
  "join_local s w rid rl =
     (let room = (case rooms s rid of None \<Rightarrow> [] | Some m \<Rightarrow> m);
          room' = (if w \<in> set room then room else room @ [w])
      in s\<lparr>clients := AList.map_entry w (\<lambda>c. c\<lparr>cl_roomId := Some rid, cl_role := Some rl\<rparr>) (clients s),
           rooms := (rooms s)(rid \<mapsto> room')\<rparr>)"

definition join_register :: "string \<Rightarrow> server \<Rightarrow> string \<Rightarrow> string \<Rightarrow> string \<Rightarrow> server" where
  "join_register now s cid rid rl =
     s\<lparr>store := registerClient (serverId s) now (Some cid) (Some rid) (Some rl) (store s)\<rparr>"

definition join_reply :: "server \<Rightarrow> ws \<Rightarrow> string \<Rightarrow> string \<Rightarrow> string \<Rightarrow> (string \<times> string) list \<Rightarrow> server" where
  "join_reply s w cid rid rl participants =
     broadcast (send s w (Joined rid rl participants)) w rid (PeerJoined cid rl)"

text \<open>\<open>listParticipants\<close> from its call to its first \<open>await\<close>.\<close>

definition list_members :: "server \<Rightarrow> ws \<Rightarrow> string \<Rightarrow> string \<Rightarrow> string \<Rightarrow> server \<times> task list" where
  "list_members s w cid rid rl =
     (if \<not> truthy (Some rid) then (join_reply s w cid rid rl [], [])
      else (s, [AwaitMembers w cid rid rl (smembers (store s) (roomMembersKey rid))]))"

text \<open>\<open>handleJoin\<close> from \<open>client.roomId = roomId\<close> to the \<open>await\<close> in \<open>registerClient\<close>.\<close>

definition start_register ::
  "string \<Rightarrow> server \<Rightarrow> ws \<Rightarrow> string \<Rightarrow> string \<Rightarrow> string \<Rightarrow> server \<times> task list" where
  "start_register now s w cid rid rl =
     (let s2 = join_register now (join_local s w rid rl) cid rid rl
      in if \<not> truthy (Some cid) \<or> \<not> truthy (Some rid) then list_members s2 w cid rid rl
         else (s2, [AwaitRegister w cid rid rl]))"

fun continue :: "cont \<Rightarrow> server \<Rightarrow> ws \<Rightarrow> string \<Rightarrow> server \<times> task list" where
  "continue K_done s w cid = (s, [])"
| "continue (K_join now rid rl) s w cid = start_register now s w cid rid rl"
| "continue K_disconnect s w cid = (s\<lparr>clients := AList.delete w (clients s)\<rparr>, [])"

subsection \<open>Leave and disconnect\<close>

definition leave_local :: "server \<Rightarrow> ws \<Rightarrow> string \<Rightarrow> string \<Rightarrow> server" where
  "leave_local s w cid rid =
     (case rooms s rid of
        None \<Rightarrow> s
      | Some room \<Rightarrow>
          let room' = removeAll w room;
              s1 = broadcast (s\<lparr>rooms := (rooms s)(rid \<mapsto> room')\<rparr>) w rid (PeerLeft cid)
          in if length room' = 0 then s1\<lparr>rooms := (rooms s1)(rid := None)\<rparr> else s1)"

definition leave_finish :: "server \<Rightarrow> ws \<Rightarrow> server" where
  "leave_finish s w =
     s\<lparr>clients := AList.map_entry w (\<lambda>c. c\<lparr>cl_roomId := None, cl_role := None\<rparr>) (clients s)\<rparr>"

text \<open>\<open>handleLeave\<close> of a client in a room, up to the first \<open>await\<close> in \<open>removeClient\<close>.\<close>

definition start_leave :: "server \<Rightarrow> ws \<Rightarrow> client \<Rightarrow> cont \<Rightarrow> server \<times> task list" where
  "start_leave s w c k =
     (let rid = js_or (cl_roomId c) [];
          s1 = leave_local s w (cl_id c) rid
      in if \<not> truthy (Some (cl_id c)) then continue k (leave_finish s1 w) w (cl_id c)
         else (s1\<lparr>store := removeClient_tx (cl_id c) (Some rid) (store s1)\<rparr>,
               [AwaitRemoveTx w (cl_id c) rid k]))"

definition handleLeave :: "server \<Rightarrow> ws \<Rightarrow> cont \<Rightarrow> js_error + server \<times> task list" where
  "handleLeave s w k =
     (case map_of (clients s) w of
        None \<Rightarrow> Inl TypeError
      | Some c \<Rightarrow>
          Inr (if \<not> truthy (cl_roomId c) then continue k s w (cl_id c)
               else start_leave s w c k))"

definition handleDisconnect :: "server \<Rightarrow> ws \<Rightarrow> js_error + server \<times> task list" where
  "handleDisconnect s w =
     (case map_of (clients s) w of
        None \<Rightarrow> Inr (s, [])
      | Some c \<Rightarrow> handleLeave s w K_disconnect)"

definition handleJoin ::
  "string \<Rightarrow> server \<Rightarrow> ws \<Rightarrow> string option \<Rightarrow> string option \<Rightarrow> js_error + server \<times> task list" where
  "handleJoin now s w roomId role =
     (if \<not> truthy roomId \<or> \<not> truthy role
      then Inr (send s w (ErrorMsg ''roomId and role are required''), [])
      else case map_of (clients s) w of
             None \<Rightarrow> Inl TypeError
           | Some c \<Rightarrow>
               if truthy (cl_roomId c)
               then handleLeave s w (K_join now (js_or roomId []) (js_or role []))
               else Inr (start_register now s w (cl_id c) (js_or roomId []) (js_or role [])))"

subsection \<open>Offer, answer, ICE candidate\<close>

text \<open>\<open>relayOrSend\<close> up to its \<open>await\<close> of \<open>getClient\<close>, and from the reply on.\<close>

definition relayOrSend ::
  "server \<Rightarrow> ws \<Rightarrow> string \<Rightarrow> server_msg \<Rightarrow> bool \<Rightarrow> server \<times> task list" where
  "relayOrSend s w tid m notifyMissing =
     (case findClientById s tid of
        Some targetWs \<Rightarrow> (send s targetWs m, [])
      | None \<Rightarrow> (s, [AwaitGetClient w tid m notifyMissing (getClient (store s) (Some tid))]))"

definition relay_finish ::
  "server \<Rightarrow> ws \<Rightarrow> string \<Rightarrow> server_msg \<Rightarrow> bool \<Rightarrow> (string \<rightharpoonup> string) option \<Rightarrow> server" where
  "relay_finish s w tid m notifyMissing remoteClient =
     (let missing =
            (if notifyMissing
             then send s w (ErrorMsg (''Target client '' @ tid @ '' not found''))
             else s)
      in case remoteClient of
           None \<Rightarrow> missing
         | Some data \<Rightarrow>
             if \<not> truthy (data ''serverId'') then missing
             else s\<lparr>published := published s @
                      [\<lparr>originServerId = Some (serverId s),
                        targetServerId = data ''serverId'',
                        targetId = Some tid,
                        message = Some m\<rparr>]\<rparr>)"

definition handleOffer ::
  "server \<Rightarrow> ws \<Rightarrow> string option \<Rightarrow> json option \<Rightarrow> js_error + server \<times> task list" where
  "handleOffer s w tgt offer =
     (if \<not> truthy tgt \<or> \<not> truthy_json offer
      then Inr (send s w (ErrorMsg ''targetId and offer are required''), [])
      else case map_of (clients s) w of
             None \<Rightarrow> Inl TypeError
           | Some c \<Rightarrow>
               Inr (relayOrSend s w (js_or tgt []) (OfferMsg (cl_id c) (json_value offer)) True))"

definition handleAnswer ::
  "server \<Rightarrow> ws \<Rightarrow> string option \<Rightarrow> json option \<Rightarrow> js_error + server \<times> task list" where
  "handleAnswer s w tgt answer =
     (if \<not> truthy tgt \<or> \<not> truthy_json answer
      then Inr (send s w (ErrorMsg ''targetId and answer are required''), [])
      else case map_of (clients s) w of
             None \<Rightarrow> Inl TypeError
           | Some c \<Rightarrow>
               Inr (relayOrSend s w (js_or tgt []) (AnswerMsg (cl_id c) (json_value answer)) True))"

definition handleIceCandidate ::
  "server \<Rightarrow> ws \<Rightarrow> string option \<Rightarrow> json option \<Rightarrow> js_error + server \<times> task list" where
  "handleIceCandidate s w tgt candidate =
     (if \<not> truthy tgt \<or> \<not> truthy_json candidate
      then Inr (send s w (ErrorMsg ''targetId and candidate are required''), [])
      else case map_of (clients s) w of
             None \<Rightarrow> Inl TypeError
           | Some c \<Rightarrow>
               Inr (relayOrSend s w (js_or tgt [])
                      (IceCandidateMsg (cl_id c) (json_value candidate)) False))"

subsection \<open>Dispatch\<close>

definition handleMessage ::
  "string \<Rightarrow> server \<Rightarrow> ws \<Rightarrow> client_msg \<Rightarrow> js_error + server \<times> task list" where
  "handleMessage now s w msg =
     (case map_of (clients s) w of
        None \<Rightarrow> Inl TypeError
      | Some c \<Rightarrow>
          (case msg of
             Join roomId role \<Rightarrow> handleJoin now s w roomId role
           | Offer tgt v \<Rightarrow> handleOffer s w tgt v
           | Answer tgt v \<Rightarrow> handleAnswer s w tgt v
           | IceCandidate tgt v \<Rightarrow> handleIceCandidate s w tgt v
           | Leave \<Rightarrow> handleLeave s w K_done
           | Unknown t \<Rightarrow> Inr (send s w (ErrorMsg (''Unknown message type: '' @ t)), [])))"

text \<open>The \<open>message\<close> listener catches what the handler throws before its first \<open>await\<close>.\<close>

definition on_message :: "string \<Rightarrow> server \<Rightarrow> ws \<Rightarrow> client_msg \<Rightarrow> server \<times> task list" where
  "on_message now s w msg =
     (case handleMessage now s w msg of
        Inl e \<Rightarrow> (send s w (ErrorMsg ''Invalid JSON message''), [])
      | Inr r \<Rightarrow> r)"

text \<open>The \<open>close\<close> listener: the socket is closed when it runs.\<close>

definition on_close :: "server \<Rightarrow> ws \<Rightarrow> server \<times> task list" where
  "on_close s w =
     (let s0 = s\<lparr>openWs := (openWs s)(w := False)\<rparr>
      in case handleDisconnect s0 w of Inl e \<Rightarrow> (s0, []) | Inr r \<Rightarrow> r)"

subsection \<open>Resuming a suspended handler\<close>

text \<open>A suspended handler from the reply it waited for to its next \<open>await\<close> or its end.\<close>

fun resume_task :: "task \<Rightarrow> server \<Rightarrow> server \<times> task list" where
  "resume_task (AwaitRemoveTx w cid rid k) s =
     (if truthy (Some rid)
      then (s, [AwaitScard w cid rid (scard (store s) (roomMembersKey rid)) k])
      else continue k (leave_finish s w) w cid)"
| "resume_task (AwaitScard w cid rid remaining k) s =
     (if remaining = 0
      then (s\<lparr>store := removeClient_gc rid remaining (store s)\<rparr>, [AwaitRemoveGc w cid k])
      else continue k (leave_finish s w) w cid)"
| "resume_task (AwaitRemoveGc w cid k) s = continue k (leave_finish s w) w cid"
| "resume_task (AwaitRegister w cid rid rl) s = list_members s w cid rid rl"
| "resume_task (AwaitMembers w cid rid rl memberIds) s =
     (if memberIds = [] then (join_reply s w cid rid rl [], [])
      else (s, [AwaitPipeline w cid rid rl (concat (map (participantOf (store s)) memberIds))]))"
| "resume_task (AwaitPipeline w cid rid rl participants) s =
     (join_reply s w cid rid rl participants, [])"
| "resume_task (AwaitGetClient w tid m notifyMissing remoteClient) s =
     (relay_finish s w tid m notifyMissing remoteClient, [])"

subsection \<open>Relay channel\<close>

text \<open>\<open>None\<close> is a payload that parses to \<open>null\<close>. The handler has no \<open>await\<close>.\<close>

definition handleRelayDelivery :: "server \<Rightarrow> relay_payload option \<Rightarrow> server" where
  "handleRelayDelivery s payload =
     (case payload of
        None \<Rightarrow> s
      | Some p \<Rightarrow>
          if targetServerId p \<noteq> Some (serverId s) then s
          else if originServerId p = Some (serverId s) then s
          else (case (case targetId p of None \<Rightarrow> None | Some t \<Rightarrow> findClientById s t) of
                  None \<Rightarrow> s
                | Some targetWs \<Rightarrow>
                    (case message p of None \<Rightarrow> s | Some m \<Rightarrow> send s targetWs m)))"

subsection \<open>Runs of one node\<close>

text \<open>
  The events of a node: a connection, a message (with the time at which it is handled),
  the close of a socket, and the reply of the store that the oldest suspended handler
  waits for.
\<close>

datatype event = Connect ws string | Message string ws client_msg | Resume | Close ws

fun async_step :: "event \<Rightarrow> server \<times> task list \<Rightarrow> server \<times> task list" where
  "async_step (Connect w clientId) (s, q) = (on_connection s w clientId, q)"
| "async_step (Message now w msg) (s, q) =
     (let (s', ts) = on_message now s w msg in (s', q @ ts))"
| "async_step Resume (s, []) = (s, [])"
| "async_step Resume (s, t # q) =
     (let (s', ts) = resume_task t s in (s', q @ ts))"
| "async_step (Close w) (s, q) =
     (let (s', ts) = on_close s w in (s', q @ ts))"

definition async_run :: "event list \<Rightarrow> server \<times> task list \<Rightarrow> server \<times> task list" where
  "async_run evs st = fold async_step evs st"

text \<open>
  One client joins a room and the join settles. Then it sends two joins back to back:
  the second arrives while the first is suspended in \<open>removeClient\<close>. The replies of
  the store follow one by one.
\<close>

definition settled_join :: "event list" where
  "settled_join =
     [Connect 1 ''client-1'',
      Message ''1700000000000'' 1 (Join (Some ''room-a'') (Some ''viewer''))]
     @ replicate 3 Resume"

definition racing_joins :: "event list" where
  "racing_joins =
     settled_join
     @ [Message ''1700000000001'' 1 (Join (Some ''room-b'') (Some ''viewer'')),
        Message ''1700000000002'' 1 (Join (Some ''room-c'') (Some ''viewer''))]
     @ replicate 12 Resume"

text \<open>The same joins, each one handled to its end before the next arrives.\<close>

definition serial_joins :: "event list" where
  "serial_joins =
     settled_join
     @ [Message ''1700000000001'' 1 (Join (Some ''room-b'') (Some ''viewer''))]
     @ replicate 6 Resume
     @ [Message ''1700000000002'' 1 (Join (Some ''room-c'') (Some ''viewer''))]
     @ replicate 6 Resume"


text \<open>
  The client alone in room-a sends a leave, and the store answers the removal. A second
  client then sends a join for room-a, before the store has answered the size of the
  member set, which is 0.
\<close>

definition leave_collects_join :: "event list" where
  "leave_collects_join =
     settled_join
     @ [Connect 2 ''client-2'',
        Message ''1700000000001'' 1 Leave,
        Resume,
        Message ''1700000000002'' 2 (Join (Some ''room-a'') (Some ''viewer''))]
     @ replicate 4 Resume"

section \<open>Document persistence, \<open>collab-server/redisPersistence.js\<close>\<close>

text \<open>
  Yjs and \<open>Buffer\<close> are libraries: their functions are parameters. \<open>applyUpdate\<close>
  yields \<open>None\<close> where \<open>Y.applyUpdate\<close> throws, and otherwise the new document and
  whether the document emits \<open>update\<close> for it. The substrate is the string store behind
  \<open>redis.get\<close> and \<open>redis.set\<close>; \<open>setlog\<close> keeps every \<open>SET\<close> in the order issued,
  with the time (in milliseconds) of the event that issued it. \<open>listeners\<close> are the
  \<open>update\<close> listeners that \<open>bindState\<close> has put on the document, each writing under
  its document name.
\<close>

record 'doc yjs =
  applyUpdate :: "'doc \<Rightarrow> string \<Rightarrow> ('doc \<times> bool) option"
  encodeStateAsUpdate :: "'doc \<Rightarrow> string"
  toBase64 :: "string \<Rightarrow> string"
  fromBase64 :: "string \<Rightarrow> string"

record 'doc persistence =
  kv :: "string \<rightharpoonup> string"
  prefix :: string
  setlog :: "(nat \<times> string \<times> string) list"
  ydoc :: 'doc
  listeners :: "string list"

definition docKey :: "'doc persistence \<Rightarrow> string \<Rightarrow> string" where
  "docKey p docName = prefix p @ '':'' @ docName"

definition writeState :: "'doc yjs \<Rightarrow> nat \<Rightarrow> string \<Rightarrow> 'doc persistence \<Rightarrow> 'doc persistence" where
  "writeState lib t docName p =
     (let encoded = toBase64 lib (encodeStateAsUpdate lib (ydoc p))
      in p\<lparr>kv := (kv p)(docKey p docName \<mapsto> encoded),
           setlog := setlog p @ [(t, docKey p docName, encoded)]\<rparr>)"

text \<open>
  The document emits \<open>update\<close> at time \<open>t\<close>: every listener runs, and each calls
  \<open>writeState\<close>, which encodes the document and issues the \<open>SET\<close> before its first
  \<open>await\<close>.
\<close>

definition emit_update :: "'doc yjs \<Rightarrow> nat \<Rightarrow> 'doc persistence \<Rightarrow> 'doc persistence" where
  "emit_update lib t p = fold (writeState lib t) (listeners p) p"

definition loadState ::
  "'doc yjs \<Rightarrow> nat \<Rightarrow> string \<Rightarrow> 'doc persistence \<Rightarrow> js_error + 'doc persistence" where
  "loadState lib t docName p =
     (case kv p (docKey p docName) of
        None \<Rightarrow> Inr p
      | Some payload \<Rightarrow>
          if payload = [] then Inr p
          else (case applyUpdate lib (ydoc p) (fromBase64 lib payload) of
                  None \<Rightarrow> Inl DecodeError
                | Some (d, emitted) \<Rightarrow>
                    Inr (if emitted then emit_update lib t (p\<lparr>ydoc := d\<rparr>) else p\<lparr>ydoc := d\<rparr>)))"

definition bindState ::
  "'doc yjs \<Rightarrow> nat \<Rightarrow> string \<Rightarrow> 'doc persistence \<Rightarrow> js_error + 'doc persistence" where
  "bindState lib t docName p =
     (case loadState lib t docName p of
        Inl e \<Rightarrow> Inl e
      | Inr p1 \<Rightarrow> Inr (p1\<lparr>listeners := listeners p1 @ [docName]\<rparr>))"

text \<open>A local update has changed the document to \<open>d\<close> at time \<open>t\<close>.\<close>

definition on_update :: "'doc yjs \<Rightarrow> nat \<times> 'doc \<Rightarrow> 'doc persistence \<Rightarrow> 'doc persistence" where
  "on_update lib ev p = emit_update lib (fst ev) (p\<lparr>ydoc := snd ev\<rparr>)"

text \<open>A toy library for concrete runs: a document is its text, an update is appended.\<close>

definition toy_yjs :: "string yjs" where
  "toy_yjs = \<lparr> applyUpdate = (\<lambda>d u. Some (d @ u, u \<noteq> [])), encodeStateAsUpdate = (\<lambda>d. d),
               toBase64 = (\<lambda>b. b), fromBase64 = (\<lambda>b. b) \<rparr>"

definition toy_persistence :: "string persistence" where
  "toy_persistence =
     \<lparr> kv = [''collab:yjs:doc:doc-123'' \<mapsto> ''hello''], prefix = ''collab:yjs:doc'',
       setlog = [], ydoc = [], listeners = [] \<rparr>"

section \<open>Awareness relay, \<open>collab-server/redisAwareness.js\<close>\<close>

text \<open>
  \<open>this.origin\<close> is a \<open>Symbol\<close>, equal only to itself; every other origin an awareness
  event may carry is a different value. The awareness protocol is a library:
  \<open>applyAwarenessUpdate\<close> yields the new awareness state and the change it reports to
  the \<open>update\<close> handlers, or \<open>None\<close> where it throws; it hands the origin it was given
  to the handlers unchanged.
\<close>

datatype origin = SymbolOrigin nat | OtherOrigin string

type_synonym change = "nat list \<times> nat list \<times> nat list"

record 'aw awareness_lib =
  encodeAwarenessUpdate :: "'aw \<Rightarrow> nat list \<Rightarrow> string"
  applyAwarenessUpdate :: "'aw \<Rightarrow> string \<Rightarrow> ('aw \<times> change) option"
  aw_toBase64 :: "string \<Rightarrow> string"
  aw_fromBase64 :: "string \<Rightarrow> string"

record 'aw redis_awareness =
  ra_prefix :: string
  ra_origin :: origin
  boundDocs :: "(string \<times> 'aw) list"
  subscribed :: "string list"
  ra_published :: "(string \<times> string) list"

definition channelName :: "'aw redis_awareness \<Rightarrow> string \<Rightarrow> string" where
  "channelName ra docName = ra_prefix ra @ '':'' @ docName"

text \<open>The handler that \<open>watch\<close> registers for \<open>docName\<close> on the awareness \<open>aw\<close>.\<close>

definition handler ::
  "'aw awareness_lib \<Rightarrow> string \<Rightarrow> 'aw \<Rightarrow> change \<Rightarrow> origin \<Rightarrow> 'aw redis_awareness \<Rightarrow> 'aw redis_awareness" where
  "handler lib docName aw ch org ra =
     (if org = ra_origin ra then ra
      else let changed = fst ch @ fst (snd ch) @ snd (snd ch)
           in if length changed = 0 then ra
              else ra\<lparr>ra_published := ra_published ra @
                        [(channelName ra docName,
                          aw_toBase64 lib (encodeAwarenessUpdate lib aw changed))]\<rparr>)"

definition watch ::
  "string option \<Rightarrow> 'aw option \<Rightarrow> 'aw redis_awareness \<Rightarrow> 'aw redis_awareness" where
  "watch docName awareness ra =
     (case awareness of
        None \<Rightarrow> ra
      | Some aw \<Rightarrow>
          if \<not> truthy docName \<or> map_of (boundDocs ra) (js_or docName []) \<noteq> None then ra
          else ra\<lparr>boundDocs := AList.update (js_or docName []) aw (boundDocs ra),
                  subscribed := subscribed ra @ [channelName ra (js_or docName [])]\<rparr>)"

text \<open>
  The awareness of a watched document has changed to \<open>aw\<close> and emits \<open>update\<close> with
  the change and its origin.
\<close>

definition awareness_update ::
  "'aw awareness_lib \<Rightarrow> string \<Rightarrow> 'aw \<Rightarrow> change \<Rightarrow> origin \<Rightarrow> 'aw redis_awareness \<Rightarrow> 'aw redis_awareness" where
  "awareness_update lib docName aw ch org ra =
     (case map_of (boundDocs ra) docName of
        None \<Rightarrow> ra
      | Some _ \<Rightarrow> handler lib docName aw ch org (ra\<lparr>boundDocs := AList.update docName aw (boundDocs ra)\<rparr>))"

definition ra_handleMessage ::
  "'aw awareness_lib \<Rightarrow> string \<Rightarrow> string option \<Rightarrow> 'aw redis_awareness \<Rightarrow> 'aw redis_awareness" where
  "ra_handleMessage lib channel payload ra =
     (if take (length (ra_prefix ra)) channel \<noteq> ra_prefix ra then ra
      else let docName = drop (length (ra_prefix ra) + 1) channel
           in case map_of (boundDocs ra) docName of
                None \<Rightarrow> ra
              | Some aw \<Rightarrow>
                  if \<not> truthy payload then ra
                  else (case applyAwarenessUpdate lib aw (aw_fromBase64 lib (js_or payload [])) of
                          None \<Rightarrow> ra
                        | Some (aw', ch) \<Rightarrow>
                            awareness_update lib docName aw' ch (ra_origin ra) ra))"

text \<open>
  A toy awareness for concrete runs: the list of client ids seen so far; an update
  names one client, by its length.
\<close>

definition toy_awareness_lib :: "(nat list) awareness_lib" where
  "toy_awareness_lib =
     \<lparr> encodeAwarenessUpdate = (\<lambda>aw changed. concat (map (\<lambda>n. replicate n (CHR ''u'')) changed)),
       applyAwarenessUpdate = (\<lambda>aw u. Some (aw @ [length u], ([length u], [], []))),
       aw_toBase64 = (\<lambda>b. b), aw_fromBase64 = (\<lambda>b. b) \<rparr>"

definition toy_relay :: "(nat list) redis_awareness" where
  "toy_relay =
     watch (Some ''doc-1'') (Some [])
       \<lparr> ra_prefix = ''collab:yjs:awareness'', ra_origin = SymbolOrigin 0,
         boundDocs = [], subscribed = [], ra_published = [] \<rparr>"

section \<open>Concrete states\<close>

definition demo_server :: server where
  "demo_server = on_connection (server_init ''node-a'') 1 ''client-1''"

text \<open>The server after the settled join: client-1 is alone in room-a.\<close>

definition demo_joined :: server where
  "demo_joined = fst (async_run settled_join (server_init ''node-a'', []))"

definition demo_client :: client where
  "demo_client = \<lparr>cl_id = ''client-1'', cl_roomId = Some ''room-a'', cl_role = Some ''viewer''\<rparr>"

text \<open>The same server after the socket of client-1 has closed and before its \<open>close\<close> listener ran.\<close>

definition demo_closed :: server where
  "demo_closed = demo_server\<lparr>openWs := (openWs demo_server)(1 := False)\<rparr>"

section \<open>Facts about sending and the key layout\<close>

lemma send_eq:
  "send s w m = s\<lparr>outbox := outbox s @ (if openWs s w then [(w, m)] else [])\<rparr>"
  by (simp add: send_def)

lemma outbox_send: "outbox (send s w m) = outbox s @ (if openWs s w then [(w, m)] else [])"
  by (simp add: send_def)

lemma send_fields [simp]:
  "clients (send s w m) = clients s" "rooms (send s w m) = rooms s"
  "store (send s w m) = store s" "serverId (send s w m) = serverId s"
  "openWs (send s w m) = openWs s" "published (send s w m) = published s"
  by (simp_all add: send_def)

lemma fold_send_eq:
  "\<exists>bs. fold (\<lambda>w st. if w \<noteq> sender then send st w m else st) room s = s\<lparr>outbox := outbox s @ bs\<rparr>
        \<and> (\<forall>x\<in>set bs. fst x \<noteq> sender \<and> snd x = m)"
proof (induction room arbitrary: s)
  case Nil
  show ?case by (rule exI [of _ "[]"]) simp
next
  case (Cons a room)
  let ?s1 = "if a \<noteq> sender then send s a m else s"
  from Cons.IH [of ?s1] obtain bs where
    bs: "fold (\<lambda>w st. if w \<noteq> sender then send st w m else st) room ?s1 = ?s1\<lparr>outbox := outbox ?s1 @ bs\<rparr>"
        "\<forall>x\<in>set bs. fst x \<noteq> sender \<and> snd x = m"
    by blast
  have "\<exists>cs. ?s1 = s\<lparr>outbox := outbox s @ cs\<rparr> \<and> (\<forall>x\<in>set cs. fst x \<noteq> sender \<and> snd x = m)"
  proof (cases "a \<noteq> sender \<and> openWs s a")
    case True
    then have "?s1 = s\<lparr>outbox := outbox s @ [(a, m)]\<rparr>" by (simp add: send_def)
    then show ?thesis using True by (intro exI [of _ "[(a, m)]"]) simp
  next
    case False
    then have "?s1 = s\<lparr>outbox := outbox s @ []\<rparr>" by (auto simp add: send_def)
    then show ?thesis by (intro exI [of _ "[]"]) simp
  qed
  then obtain cs where cs: "?s1 = s\<lparr>outbox := outbox s @ cs\<rparr>"
      "\<forall>x\<in>set cs. fst x \<noteq> sender \<and> snd x = m"
    by blast
  have "fold (\<lambda>w st. if w \<noteq> sender then send st w m else st) (a # room) s
          = ?s1\<lparr>outbox := outbox ?s1 @ bs\<rparr>"
    using bs(1) by simp
  also have "\<dots> = s\<lparr>outbox := outbox s @ (cs @ bs)\<rparr>"
    by (subst cs(1), subst cs(1)) simp
  finally have "fold (\<lambda>w st. if w \<noteq> sender then send st w m else st) (a # room) s
          = s\<lparr>outbox := outbox s @ (cs @ bs)\<rparr>" .
  moreover have "\<forall>x\<in>set (cs @ bs). fst x \<noteq> sender \<and> snd x = m"
    using bs(2) cs(2) by auto
  ultimately show ?case by blast
qed

lemma broadcast_eq:
  "\<exists>bs. broadcast s sender r m = s\<lparr>outbox := outbox s @ bs\<rparr>
        \<and> (\<forall>x\<in>set bs. fst x \<noteq> sender \<and> snd x = m)"
proof (cases "rooms s r")
  case None
  then have "broadcast s sender r m = s\<lparr>outbox := outbox s @ []\<rparr>" by (simp add: broadcast_def)
  then show ?thesis by (intro exI [of _ "[]"]) simp
next
  case (Some room)
  then show ?thesis using fold_send_eq [of sender m room s] by (simp add: broadcast_def)
qed

lemma broadcast_fields [simp]:
  "clients (broadcast s sender r m) = clients s" "rooms (broadcast s sender r m) = rooms s"
  "store (broadcast s sender r m) = store s" "serverId (broadcast s sender r m) = serverId s"
  "openWs (broadcast s sender r m) = openWs s" "published (broadcast s sender r m) = published s"
  using broadcast_eq [of s sender r m] by auto

lemma join_reply_eq:
  "\<exists>rest. join_reply s w cid rid rl ps
            = s\<lparr>outbox := outbox s @ (if openWs s w then [(w, Joined rid rl ps)] else []) @ rest\<rparr>
        \<and> (\<forall>x\<in>set rest. fst x \<noteq> w \<and> snd x = PeerJoined cid rl)"
proof -
  let ?s1 = "send s w (Joined rid rl ps)"
  obtain bs where bs: "broadcast ?s1 w rid (PeerJoined cid rl) = ?s1\<lparr>outbox := outbox ?s1 @ bs\<rparr>"
      "\<forall>x\<in>set bs. fst x \<noteq> w \<and> snd x = PeerJoined cid rl"
    using broadcast_eq [of ?s1 w rid "PeerJoined cid rl"] by blast
  have "join_reply s w cid rid rl ps
          = s\<lparr>outbox := outbox s @ (if openWs s w then [(w, Joined rid rl ps)] else []) @ bs\<rparr>"
    unfolding join_reply_def bs(1) by (simp add: send_def)
  then show ?thesis using bs(2) by blast
qed

lemma key_distinct [simp]:
  "roomMembersKey a \<noteq> ROOM_INDEX_KEY" "ROOM_INDEX_KEY \<noteq> roomMembersKey a"
  "clientKey c \<noteq> ROOM_INDEX_KEY" "ROOM_INDEX_KEY \<noteq> clientKey c"
  "clientKey c \<noteq> roomMembersKey a" "roomMembersKey a \<noteq> clientKey c"
  by (simp_all add: roomMembersKey_def ROOM_INDEX_KEY_def clientKey_def)

lemma roomMembersKey_inj [simp]: "(roomMembersKey a = roomMembersKey b) = (a = b)"
  by (simp add: roomMembersKey_def)

lemma clientKey_inj [simp]: "(clientKey a = clientKey b) = (a = b)"
  by (simp add: clientKey_def)


lemma registerClient_tx:
  "cid \<noteq> [] \<Longrightarrow> rid \<noteq> [] \<Longrightarrow> rl \<noteq> [] \<Longrightarrow>
   registerClient sid now (Some cid) (Some rid) (Some rl) r
     = multi_exec
        [SADD ROOM_INDEX_KEY rid,
         SADD (roomMembersKey rid) cid,
         HSET (clientKey cid)
           [(''id'', cid), (''roomId'', rid), (''role'', rl), (''serverId'', sid), (''updatedAt'', now)]] r"
  by (simp add: registerClient_def)

lemma register_effect:
  assumes r': "r' = multi_exec
        [SADD ROOM_INDEX_KEY rid,
         SADD (roomMembersKey rid) cid,
         HSET (clientKey cid)
           [(''id'', cid), (''roomId'', rid), (''role'', rl), (''serverId'', sid), (''updatedAt'', now)]] r"
  shows "hgetall r' (clientKey cid) ''id'' = Some cid"
    and "hgetall r' (clientKey cid) ''roomId'' = Some rid"
    and "hgetall r' (clientKey cid) ''role'' = Some rl"
    and "hgetall r' (clientKey cid) ''serverId'' = Some sid"
    and "cid \<in> set (smembers r' (roomMembersKey rid))"
    and "rid \<in> set (smembers r' ROOM_INDEX_KEY)"
    and "txlog r' = txlog r @
        [[SADD ROOM_INDEX_KEY rid,
          SADD (roomMembersKey rid) cid,
          HSET (clientKey cid)
            [(''id'', cid), (''roomId'', rid), (''role'', rl), (''serverId'', sid), (''updatedAt'', now)]]]"
  by (simp_all add: r' multi_exec_def hgetall_def smembers_def)

lemma participant_listed:
  assumes "cid \<in> set (smembers r (roomMembersKey rid))"
    and "hgetall r (clientKey cid) ''id'' = Some cid"
    and "hgetall r (clientKey cid) ''role'' = Some rl"
    and "cid \<noteq> []" and "rid \<noteq> []" and "rl \<noteq> []"
  shows "(cid, rl) \<in> set (listParticipants r (Some rid))"
proof -
  have "participantOf r cid = [(cid, rl)]"
    using assms by (simp add: participantOf_def)
  moreover have "smembers r (roomMembersKey rid) \<noteq> []"
    using assms(1) by auto
  ultimately show ?thesis
    using assms(1,5) by (force simp add: listParticipants_def)
qed

lemma join_local_fields [simp]:
  "store (join_local s w rid rl) = store s" "serverId (join_local s w rid rl) = serverId s"
  "openWs (join_local s w rid rl) = openWs s" "outbox (join_local s w rid rl) = outbox s"
  "published (join_local s w rid rl) = published s"
  by (simp_all add: join_local_def Let_def)


lemma leave_local_fields [simp]:
  "store (leave_local s w cid rid) = store s" "clients (leave_local s w cid rid) = clients s"
  "openWs (leave_local s w cid rid) = openWs s" "serverId (leave_local s w cid rid) = serverId s"
  "published (leave_local s w cid rid) = published s"
  by (simp_all add: leave_local_def Let_def split: option.splits)



lemma run_Cons [simp]: "async_run (e # es) st = async_run es (async_step e st)"
  by (simp add: async_run_def)

lemma run_Nil [simp]: "async_run [] st = st"
  by (simp add: async_run_def)

lemma run_idle [simp]: "async_run (replicate n Resume) (s, []) = (s, [])"
  by (induction n) simp_all

lemma replicate_Suc_Resume:
  "async_run (replicate (Suc n) Resume) st = async_run (replicate n Resume) (async_step Resume st)"
  by simp

lemma demo_server_facts:
  "map_of (clients demo_server) 1 = Some \<lparr>cl_id = ''client-1'', cl_roomId = None, cl_role = None\<rparr>"
  "findClientById demo_server ''ghost'' = None"
  "findClientById demo_server ''client-1'' = Some 1"
  "hgetall (store demo_server) (clientKey ''ghost'') = Map.empty"
  "openWs demo_server 1"
  "serverId demo_server = ''node-a''"
  "outbox demo_server = [(1, Welcome ''client-1'')]"
  "published demo_server = []"
  "rooms demo_server = Map.empty"
  "store demo_server = redis_empty"
  by (simp_all add: demo_server_def on_connection_def server_init_def send_def findClientById_def
        hgetall_def redis_empty_def)

lemma demo_joined_facts:
  "map_of (clients demo_joined) 1 = Some demo_client"
  "smembers (store demo_joined) (roomMembersKey ''room-a'') = [''client-1'']"
  "rooms demo_joined ''room-a'' = Some [1]"
  "openWs demo_joined 1"
  by (simp_all add: demo_joined_def settled_join_def demo_client_def on_connection_def server_init_def
        send_def on_message_def handleMessage_def handleJoin_def start_register_def list_members_def
        join_register_def join_local_def
        join_reply_def registerClient_def multi_exec_def smembers_def redis_empty_def
        participantOf_def hgetall_def broadcast_def Let_def eval_nat_numeral)



section \<open>A handler that runs alone\<close>

lemma leave_local_outbox:
  "\<exists>bs. outbox (leave_local s w cid rid) = outbox s @ bs
        \<and> (\<forall>x\<in>set bs. fst x \<noteq> w \<and> snd x = PeerLeft cid)"
proof (cases "rooms s rid")
  case None
  then have "outbox (leave_local s w cid rid) = outbox s @ []" by (simp add: leave_local_def)
  then show ?thesis by (intro exI [of _ "[]"]) simp
next
  case (Some room)
  let ?s0 = "s\<lparr>rooms := (rooms s)(rid \<mapsto> removeAll w room)\<rparr>"
  obtain bs where bs: "broadcast ?s0 w rid (PeerLeft cid) = ?s0\<lparr>outbox := outbox ?s0 @ bs\<rparr>"
      "\<forall>x\<in>set bs. fst x \<noteq> w \<and> snd x = PeerLeft cid"
    using broadcast_eq [of ?s0 w rid "PeerLeft cid"] by blast
  have "outbox (broadcast ?s0 w rid (PeerLeft cid)) = outbox s @ bs"
    by (subst bs(1)) simp
  then have "outbox (leave_local s w cid rid) = outbox s @ bs"
    using Some by (cases "removeAll w room = []") (auto simp add: leave_local_def Let_def)
  then show ?thesis using bs(2) by blast
qed

lemma settle_members:
  "rid \<noteq> [] \<Longrightarrow>
   async_run (replicate (Suc (Suc n)) Resume)
     (s, [AwaitMembers w cid rid rl (smembers (store s) (roomMembersKey rid))])
   = (join_reply s w cid rid rl (listParticipants (store s) (Some rid)), [])"
  by (simp add: listParticipants_def Let_def)

lemma settle_register:
  assumes "cid \<noteq> []" "rid \<noteq> []"
  shows "async_run (replicate (Suc (Suc (Suc n))) Resume) (start_register now s w cid rid rl)
   = (join_reply (join_register now (join_local s w rid rl) cid rid rl) w cid rid rl
        (listParticipants (store (join_register now (join_local s w rid rl) cid rid rl)) (Some rid)), [])"
  using assms settle_members [OF assms(2), of n]
  by (simp add: start_register_def list_members_def Let_def)

lemma settle_leave:
  assumes rid: "cl_roomId c = Some rid" "rid \<noteq> []"
    and cid: "cl_id c \<noteq> []"
    and sl: "sl = leave_finish
               ((leave_local s w (cl_id c) rid)
                  \<lparr>store := removeClient_gc rid
                     (scard (removeClient_tx (cl_id c) (Some rid) (store s)) (roomMembersKey rid))
                     (removeClient_tx (cl_id c) (Some rid) (store s))\<rparr>) w"
    and F: "\<And>m. j \<le> m \<Longrightarrow> async_run (replicate m Resume) (continue k sl w (cl_id c)) = F"
  shows "async_run (replicate (Suc (Suc (Suc (j + n)))) Resume) (start_leave s w c k) = F"
proof -
  define s1 where "s1 = leave_local s w (cl_id c) rid"
  define r1 where "r1 = removeClient_tx (cl_id c) (Some rid) (store s)"
  define remaining where "remaining = scard r1 (roomMembersKey rid)"
  have st: "start_leave s w c k = (s1\<lparr>store := r1\<rparr>, [AwaitRemoveTx w (cl_id c) rid k])"
    using cid rid by (simp add: start_leave_def s1_def r1_def)
  have lf: "sl = leave_finish (s1\<lparr>store := removeClient_gc rid remaining r1\<rparr>) w"
    by (simp add: sl s1_def r1_def remaining_def)
  show ?thesis
  proof (cases "remaining = 0")
    case True
    have "async_run (replicate (Suc (Suc (Suc (j + n)))) Resume) (s1\<lparr>store := r1\<rparr>, [AwaitRemoveTx w (cl_id c) rid k])
          = async_run (replicate (j + n) Resume)
              (continue k (leave_finish (s1\<lparr>store := removeClient_gc rid remaining r1\<rparr>) w) w (cl_id c))"
      using True rid(2)
      by (simp add: remaining_def [symmetric] del: replicate_Suc replicate.simps
            add: replicate_Suc_Resume)
    then show ?thesis using F [of "j + n"] by (simp add: st lf)
  next
    case False
    have "async_run (replicate (Suc (Suc (Suc (j + n)))) Resume) (s1\<lparr>store := r1\<rparr>, [AwaitRemoveTx w (cl_id c) rid k])
          = async_run (replicate (Suc (j + n)) Resume)
              (continue k (leave_finish (s1\<lparr>store := r1\<rparr>) w) w (cl_id c))"
      using False rid(2)
      by (simp add: remaining_def [symmetric] del: replicate_Suc replicate.simps
            add: replicate_Suc_Resume)
    moreover have "removeClient_gc rid remaining r1 = r1"
      using False by (simp add: removeClient_gc_def)
    ultimately show ?thesis using F [of "Suc (j + n)"] by (simp add: st lf)
  qed
qed

lemma leave_finish_fields [simp]:
  "store (leave_finish s w) = store s" "rooms (leave_finish s w) = rooms s"
  "openWs (leave_finish s w) = openWs s" "serverId (leave_finish s w) = serverId s"
  "outbox (leave_finish s w) = outbox s" "published (leave_finish s w) = published s"
  by (simp_all add: leave_finish_def)

section \<open>registerClient with a partially specified client\<close>

text \<open>
  C9. \<open>registerClient\<close> called without an id or without a roomId returns at once: the
  substrate, including its transaction log, is exactly what it was, so no client hash,
  member set or room index entry is created.
\<close>

theorem registerClient_missing_noop:
  assumes "\<not> truthy cid \<or> \<not> truthy roomId"
  shows "registerClient sid now cid roomId role r = r"
  using assms by (simp add: registerClient_def)

theorem registerClient_missing_noop_witness:
  "registerClient ''node-a'' ''1700000000000'' None (Some ''room-1'') (Some ''viewer'') redis_empty
     = redis_empty
   \<and> registerClient ''node-a'' ''1700000000000'' (Some ''client-1'') (Some []) (Some ''viewer'') redis_empty
     = redis_empty"
  using registerClient_missing_noop [of None "Some ''room-1''" "''node-a''" "''1700000000000''"
          "Some ''viewer''" redis_empty]
        registerClient_missing_noop [of "Some ''client-1''" "Some []" "''node-a''" "''1700000000000''"
          "Some ''viewer''" redis_empty]
  by simp

section \<open>Relaying to an unknown target\<close>




section \<open>Join without room or role\<close>

text \<open>
  C2. A join message whose roomId or role is missing (or empty) returns normally and
  leaves no handler suspended; the client map with every client's room and role, the
  room map and the substrate, its transaction log included, are what they were, nothing
  is published, and the only frame written is the error to the sender (when its socket
  is open).
\<close>

theorem handleJoin_missing_field:
  assumes "\<not> truthy roomId \<or> \<not> truthy role"
  shows "\<exists>s'. handleJoin now s w roomId role = Inr (s', [])
           \<and> clients s' = clients s \<and> rooms s' = rooms s \<and> store s' = store s
           \<and> published s' = published s
           \<and> outbox s' = outbox s @
                (if openWs s w then [(w, ErrorMsg ''roomId and role are required'')] else [])"
  using assms by (auto simp add: handleJoin_def outbox_send)

theorem handleJoin_missing_field_witness:
  "\<not> truthy None
   \<and> (\<exists>s'. handleJoin ''1700000000000'' demo_joined 1 None (Some ''viewer'') = Inr (s', [])
           \<and> clients s' = clients demo_joined \<and> rooms s' = rooms demo_joined
           \<and> store s' = store demo_joined \<and> published s' = published demo_joined
           \<and> outbox s' = outbox demo_joined @
                (if openWs demo_joined 1 then [(1, ErrorMsg ''roomId and role are required'')] else []))"
  using handleJoin_missing_field [of None "Some ''viewer''" "''1700000000000''" demo_joined 1]
  by simp

section \<open>A successful join\<close>

lemma start_register_tx:
  assumes ne: "cid \<noteq> []" "rid \<noteq> []" "rl \<noteq> []"
  shows "\<exists>s'. start_register now s0 w cid rid rl = (s', [AwaitRegister w cid rid rl])
      \<and> store s' = multi_exec
           [SADD ROOM_INDEX_KEY rid,
            SADD (roomMembersKey rid) cid,
            HSET (clientKey cid)
              [(''id'', cid), (''roomId'', rid), (''role'', rl),
               (''serverId'', serverId s0), (''updatedAt'', now)]] (store s0)
      \<and> outbox s' = outbox s0 \<and> published s' = published s0"
  using ne by (simp add: start_register_def Let_def join_register_def registerClient_tx)

lemma join_alone:
  assumes c: "map_of (clients s) w = Some c"
    and ne: "cl_id c \<noteq> []" "rid \<noteq> []" "rl \<noteq> []"
  shows "\<exists>sl pre.
      async_run (Message now w (Join (Some rid) (Some rl)) # replicate 6 Resume) (s, [])
        = (join_reply (join_register now (join_local sl w rid rl) (cl_id c) rid rl) w (cl_id c) rid rl
             (listParticipants (store (join_register now (join_local sl w rid rl) (cl_id c) rid rl))
                (Some rid)), [])
    \<and> openWs sl = openWs s \<and> serverId sl = serverId s \<and> outbox sl = outbox s @ pre
    \<and> (\<forall>x\<in>set pre. fst x \<noteq> w \<and> snd x = PeerLeft (cl_id c))"
proof (cases "truthy (cl_roomId c)")
  case False
  have "async_run (Message now w (Join (Some rid) (Some rl)) # replicate 6 Resume) (s, [])
        = async_run (replicate (Suc (Suc (Suc 3))) Resume) (start_register now s w (cl_id c) rid rl)"
    using c ne False
    by (simp add: on_message_def handleMessage_def handleJoin_def eval_nat_numeral
          del: replicate_Suc replicate.simps split: prod.splits)
  then have "async_run (Message now w (Join (Some rid) (Some rl)) # replicate 6 Resume) (s, [])
        = (join_reply (join_register now (join_local s w rid rl) (cl_id c) rid rl) w (cl_id c) rid rl
             (listParticipants (store (join_register now (join_local s w rid rl) (cl_id c) rid rl))
                (Some rid)), [])"
    using settle_register [OF ne(1,2), of 3 now s w rl] by simp
  then show ?thesis
    by (intro exI [of _ s] exI [of _ "[]"]) simp
next
  case True
  then obtain r0 where r0: "cl_roomId c = Some r0" "r0 \<noteq> []"
    by (cases "cl_roomId c") auto
  define sl where "sl = leave_finish
               ((leave_local s w (cl_id c) r0)
                  \<lparr>store := removeClient_gc r0
                     (scard (removeClient_tx (cl_id c) (Some r0) (store s)) (roomMembersKey r0))
                     (removeClient_tx (cl_id c) (Some r0) (store s))\<rparr>) w"
  define F where "F = (join_reply (join_register now (join_local sl w rid rl) (cl_id c) rid rl) w (cl_id c) rid rl
             (listParticipants (store (join_register now (join_local sl w rid rl) (cl_id c) rid rl))
                (Some rid)), [] :: task list)"
  have Fm: "\<And>m. 3 \<le> m \<Longrightarrow> async_run (replicate m Resume) (continue (K_join now rid rl) sl w (cl_id c)) = F"
  proof -
    fix m :: nat assume "3 \<le> m"
    then obtain n where "m = Suc (Suc (Suc n))"
      by (metis Suc_le_D Suc_le_mono numeral_3_eq_3)
    then show "async_run (replicate m Resume) (continue (K_join now rid rl) sl w (cl_id c)) = F"
      using settle_register [OF ne(1,2), of n now sl w rl] by (simp add: F_def)
  qed
  have "async_run (replicate (Suc (Suc (Suc (3 + 0)))) Resume) (start_leave s w c (K_join now rid rl)) = F"
    using settle_leave [OF r0 ne(1) sl_def Fm] by blast
  moreover have "async_run (Message now w (Join (Some rid) (Some rl)) # replicate 6 Resume) (s, [])
        = async_run (replicate (Suc (Suc (Suc (3 + 0)))) Resume) (start_leave s w c (K_join now rid rl))"
    using c ne True
    by (simp add: on_message_def handleMessage_def handleJoin_def handleLeave_def eval_nat_numeral
          del: replicate_Suc replicate.simps split: prod.splits)
  ultimately have run: "async_run (Message now w (Join (Some rid) (Some rl)) # replicate 6 Resume) (s, []) = F"
    by simp
  obtain pre where pre: "outbox (leave_local s w (cl_id c) r0) = outbox s @ pre"
      "\<forall>x\<in>set pre. fst x \<noteq> w \<and> snd x = PeerLeft (cl_id c)"
    using leave_local_outbox [of s w "cl_id c" r0] by blast
  have "openWs sl = openWs s" "serverId sl = serverId s" "outbox sl = outbox s @ pre"
    using pre(1) by (simp_all add: sl_def)
  then show ?thesis
    using run pre(2) unfolding F_def by blast
qed

text \<open>
  C3. A join that carries a room id and a role, from a connected client with an id.

  If the client is in no room, the handler goes on to the registration at once. If it
  is in a room, the handler first leaves it and suspends in \<open>removeClient\<close>; whenever
  one of the awaited commands of \<open>removeClient\<close> is answered, in whatever state the
  server is by then, the handler issues the next of them or goes on to the registration.

  The registration, in whatever state it starts: the store changes by one \<open>multi\<close> of
  three commands that adds the room to the room index, the client id to the member set of
  the room, and writes the client hash with id, roomId, role and serverId; the
  transaction log grows by exactly this entry, and right after it the hash has these
  fields, the client id is a member and the room is in the index. Nothing is sent, and
  the handler suspends.

  The reply, in whatever states the answers arrive: when the \<open>multi\<close> is answered the
  handler reads the member set; when the members are answered it replies with the empty
  list if there are none and otherwise reads their hashes; when these are answered it
  replies. The reply is one \<open>joined\<close> frame to the client (when its socket is open),
  carrying the list that was read, followed by \<open>peer-joined\<close> frames to others only;
  nothing else changes. When both reads are served on the same store, the list is
  \<open>listParticipants\<close> of that store.

  When the handler runs alone from the message to its end, the last transaction in the
  log is the registration, the hash, the membership and the index entry are in the
  store, and \<open>joined\<close> carries the participant list of that store, which lists the
  client itself; the frames before it are \<open>peer-left\<close> frames to others.
\<close>

theorem handleJoin_registers:
  assumes c: "map_of (clients s) w = Some c"
    and ne: "cl_id c \<noteq> []" "rid \<noteq> []" "rl \<noteq> []"
  shows "(\<not> truthy (cl_roomId c) \<longrightarrow>
            handleJoin now s w (Some rid) (Some rl) = Inr (start_register now s w (cl_id c) rid rl))
    \<and> (truthy (cl_roomId c) \<longrightarrow>
         (\<exists>s1 r0. r0 \<noteq> [] \<and> handleJoin now s w (Some rid) (Some rl)
                    = Inr (s1, [AwaitRemoveTx w (cl_id c) r0 (K_join now rid rl)])))
    \<and> (r0 \<noteq> [] \<longrightarrow> resume_task (AwaitRemoveTx w (cl_id c) r0 (K_join now rid rl)) s0
         = (s0, [AwaitScard w (cl_id c) r0 (scard (store s0) (roomMembersKey r0)) (K_join now rid rl)]))
    \<and> (\<exists>s1. resume_task (AwaitScard w (cl_id c) r0 0 (K_join now rid rl)) s0
               = (s1, [AwaitRemoveGc w (cl_id c) (K_join now rid rl)]))
    \<and> (n \<noteq> 0 \<longrightarrow> resume_task (AwaitScard w (cl_id c) r0 n (K_join now rid rl)) s0
         = start_register now (leave_finish s0 w) w (cl_id c) rid rl)
    \<and> resume_task (AwaitRemoveGc w (cl_id c) (K_join now rid rl)) s0
         = start_register now (leave_finish s0 w) w (cl_id c) rid rl
    \<and> (\<exists>s'. start_register now s0 w (cl_id c) rid rl = (s', [AwaitRegister w (cl_id c) rid rl])
         \<and> store s' = multi_exec
             [SADD ROOM_INDEX_KEY rid,
              SADD (roomMembersKey rid) (cl_id c),
              HSET (clientKey (cl_id c))
                [(''id'', cl_id c), (''roomId'', rid), (''role'', rl),
                 (''serverId'', serverId s0), (''updatedAt'', now)]] (store s0)
         \<and> txlog (store s') = txlog (store s0) @
             [[SADD ROOM_INDEX_KEY rid,
               SADD (roomMembersKey rid) (cl_id c),
               HSET (clientKey (cl_id c))
                 [(''id'', cl_id c), (''roomId'', rid), (''role'', rl),
                  (''serverId'', serverId s0), (''updatedAt'', now)]]]
         \<and> hgetall (store s') (clientKey (cl_id c)) ''id'' = Some (cl_id c)
         \<and> hgetall (store s') (clientKey (cl_id c)) ''roomId'' = Some rid
         \<and> hgetall (store s') (clientKey (cl_id c)) ''role'' = Some rl
         \<and> hgetall (store s') (clientKey (cl_id c)) ''serverId'' = Some (serverId s0)
         \<and> cl_id c \<in> set (smembers (store s') (roomMembersKey rid))
         \<and> rid \<in> set (smembers (store s') ROOM_INDEX_KEY)
         \<and> outbox s' = outbox s0 \<and> published s' = published s0)
    \<and> resume_task (AwaitRegister w (cl_id c) rid rl) s0
         = (s0, [AwaitMembers w (cl_id c) rid rl (smembers (store s0) (roomMembersKey rid))])
    \<and> (ids \<noteq> [] \<longrightarrow> resume_task (AwaitMembers w (cl_id c) rid rl ids) s0
         = (s0, [AwaitPipeline w (cl_id c) rid rl (concat (map (participantOf (store s0)) ids))]))
    \<and> (\<exists>rest. resume_task (AwaitMembers w (cl_id c) rid rl []) s0
                 = (s0\<lparr>outbox := outbox s0 @
                         (if openWs s0 w then [(w, Joined rid rl [])] else []) @ rest\<rparr>, [])
         \<and> (\<forall>x\<in>set rest. fst x \<noteq> w \<and> snd x = PeerJoined (cl_id c) rl))
    \<and> (\<exists>rest. resume_task (AwaitPipeline w (cl_id c) rid rl ps) s0
                 = (s0\<lparr>outbox := outbox s0 @
                         (if openWs s0 w then [(w, Joined rid rl ps)] else []) @ rest\<rparr>, [])
         \<and> (\<forall>x\<in>set rest. fst x \<noteq> w \<and> snd x = PeerJoined (cl_id c) rl))
    \<and> (if smembers r (roomMembersKey rid) = [] then []
        else concat (map (participantOf r) (smembers r (roomMembersKey rid))))
         = listParticipants r (Some rid)
    \<and> (\<exists>s' pre rest.
         async_run (Message now w (Join (Some rid) (Some rl)) # replicate 6 Resume) (s, []) = (s', [])
         \<and> last (txlog (store s')) =
             [SADD ROOM_INDEX_KEY rid,
              SADD (roomMembersKey rid) (cl_id c),
              HSET (clientKey (cl_id c))
                [(''id'', cl_id c), (''roomId'', rid), (''role'', rl),
                 (''serverId'', serverId s), (''updatedAt'', now)]]
         \<and> hgetall (store s') (clientKey (cl_id c)) ''id'' = Some (cl_id c)
         \<and> hgetall (store s') (clientKey (cl_id c)) ''roomId'' = Some rid
         \<and> hgetall (store s') (clientKey (cl_id c)) ''role'' = Some rl
         \<and> hgetall (store s') (clientKey (cl_id c)) ''serverId'' = Some (serverId s)
         \<and> cl_id c \<in> set (smembers (store s') (roomMembersKey rid))
         \<and> rid \<in> set (smembers (store s') ROOM_INDEX_KEY)
         \<and> (cl_id c, rl) \<in> set (listParticipants (store s') (Some rid))
         \<and> outbox s' = outbox s @ pre
              @ (if openWs s w then [(w, Joined rid rl (listParticipants (store s') (Some rid)))] else [])
              @ rest
         \<and> (\<forall>x\<in>set pre. fst x \<noteq> w \<and> snd x = PeerLeft (cl_id c))
         \<and> (\<forall>x\<in>set rest. fst x \<noteq> w \<and> snd x = PeerJoined (cl_id c) rl))"
proof -
  have j1: "\<not> truthy (cl_roomId c) \<longrightarrow>
            handleJoin now s w (Some rid) (Some rl) = Inr (start_register now s w (cl_id c) rid rl)"
    using c ne by (simp add: handleJoin_def)
  have j2: "truthy (cl_roomId c) \<longrightarrow>
         (\<exists>s1 r0. r0 \<noteq> [] \<and> handleJoin now s w (Some rid) (Some rl)
                    = Inr (s1, [AwaitRemoveTx w (cl_id c) r0 (K_join now rid rl)]))"
  proof
    assume t: "truthy (cl_roomId c)"
    then obtain r0 where r0: "cl_roomId c = Some r0" "r0 \<noteq> []"
      by (cases "cl_roomId c") auto
    have "handleJoin now s w (Some rid) (Some rl)
            = Inr ((leave_local s w (cl_id c) r0)
                     \<lparr>store := removeClient_tx (cl_id c) (Some r0) (store (leave_local s w (cl_id c) r0))\<rparr>,
                   [AwaitRemoveTx w (cl_id c) r0 (K_join now rid rl)])"
      using c ne r0 by (simp add: handleJoin_def handleLeave_def start_leave_def Let_def)
    then show "\<exists>s1 r0. r0 \<noteq> [] \<and> handleJoin now s w (Some rid) (Some rl)
                    = Inr (s1, [AwaitRemoveTx w (cl_id c) r0 (K_join now rid rl)])"
      using r0(2) by blast
  qed
  have l1: "r0 \<noteq> [] \<longrightarrow> resume_task (AwaitRemoveTx w (cl_id c) r0 (K_join now rid rl)) s0
         = (s0, [AwaitScard w (cl_id c) r0 (scard (store s0) (roomMembersKey r0)) (K_join now rid rl)])"
    by simp
  have l2: "\<exists>s1. resume_task (AwaitScard w (cl_id c) r0 0 (K_join now rid rl)) s0
               = (s1, [AwaitRemoveGc w (cl_id c) (K_join now rid rl)])"
    by simp
  have l3: "n \<noteq> 0 \<longrightarrow> resume_task (AwaitScard w (cl_id c) r0 n (K_join now rid rl)) s0
         = start_register now (leave_finish s0 w) w (cl_id c) rid rl"
    by simp
  have l4: "resume_task (AwaitRemoveGc w (cl_id c) (K_join now rid rl)) s0
         = start_register now (leave_finish s0 w) w (cl_id c) rid rl"
    by simp
  obtain s' where s': "start_register now s0 w (cl_id c) rid rl = (s', [AwaitRegister w (cl_id c) rid rl])"
      "store s' = multi_exec
             [SADD ROOM_INDEX_KEY rid,
              SADD (roomMembersKey rid) (cl_id c),
              HSET (clientKey (cl_id c))
                [(''id'', cl_id c), (''roomId'', rid), (''role'', rl),
                 (''serverId'', serverId s0), (''updatedAt'', now)]] (store s0)"
      "outbox s' = outbox s0" "published s' = published s0"
    using start_register_tx [OF ne, of now s0 w] by blast
  note eff = register_effect [OF s'(2)]
  have rg: "\<exists>s'. start_register now s0 w (cl_id c) rid rl = (s', [AwaitRegister w (cl_id c) rid rl])
         \<and> store s' = multi_exec
             [SADD ROOM_INDEX_KEY rid,
              SADD (roomMembersKey rid) (cl_id c),
              HSET (clientKey (cl_id c))
                [(''id'', cl_id c), (''roomId'', rid), (''role'', rl),
                 (''serverId'', serverId s0), (''updatedAt'', now)]] (store s0)
         \<and> txlog (store s') = txlog (store s0) @
             [[SADD ROOM_INDEX_KEY rid,
               SADD (roomMembersKey rid) (cl_id c),
               HSET (clientKey (cl_id c))
                 [(''id'', cl_id c), (''roomId'', rid), (''role'', rl),
                  (''serverId'', serverId s0), (''updatedAt'', now)]]]
         \<and> hgetall (store s') (clientKey (cl_id c)) ''id'' = Some (cl_id c)
         \<and> hgetall (store s') (clientKey (cl_id c)) ''roomId'' = Some rid
         \<and> hgetall (store s') (clientKey (cl_id c)) ''role'' = Some rl
         \<and> hgetall (store s') (clientKey (cl_id c)) ''serverId'' = Some (serverId s0)
         \<and> cl_id c \<in> set (smembers (store s') (roomMembersKey rid))
         \<and> rid \<in> set (smembers (store s') ROOM_INDEX_KEY)
         \<and> outbox s' = outbox s0 \<and> published s' = published s0"
    by (rule exI [of _ s']) (intro conjI s' eff(7) eff(1-6))
  have b1: "resume_task (AwaitRegister w (cl_id c) rid rl) s0
         = (s0, [AwaitMembers w (cl_id c) rid rl (smembers (store s0) (roomMembersKey rid))])"
    using ne by (simp add: list_members_def)
  have b2: "ids \<noteq> [] \<longrightarrow> resume_task (AwaitMembers w (cl_id c) rid rl ids) s0
         = (s0, [AwaitPipeline w (cl_id c) rid rl (concat (map (participantOf (store s0)) ids))])"
    by simp
  have b3: "\<exists>rest. resume_task (AwaitMembers w (cl_id c) rid rl []) s0
                 = (s0\<lparr>outbox := outbox s0 @
                         (if openWs s0 w then [(w, Joined rid rl [])] else []) @ rest\<rparr>, [])
         \<and> (\<forall>x\<in>set rest. fst x \<noteq> w \<and> snd x = PeerJoined (cl_id c) rl)"
    using join_reply_eq [of s0 w "cl_id c" rid rl "[]"] by simp
  have b4: "\<exists>rest. resume_task (AwaitPipeline w (cl_id c) rid rl ps) s0
                 = (s0\<lparr>outbox := outbox s0 @
                         (if openWs s0 w then [(w, Joined rid rl ps)] else []) @ rest\<rparr>, [])
         \<and> (\<forall>x\<in>set rest. fst x \<noteq> w \<and> snd x = PeerJoined (cl_id c) rl)"
    using join_reply_eq [of s0 w "cl_id c" rid rl ps] by simp
  have b5: "(if smembers r (roomMembersKey rid) = [] then []
        else concat (map (participantOf r) (smembers r (roomMembersKey rid))))
         = listParticipants r (Some rid)"
    using ne by (simp add: listParticipants_def Let_def)
  obtain sl pre where al:
      "async_run (Message now w (Join (Some rid) (Some rl)) # replicate 6 Resume) (s, [])
        = (join_reply (join_register now (join_local sl w rid rl) (cl_id c) rid rl) w (cl_id c) rid rl
             (listParticipants (store (join_register now (join_local sl w rid rl) (cl_id c) rid rl))
                (Some rid)), [])"
      "openWs sl = openWs s" "serverId sl = serverId s" "outbox sl = outbox s @ pre"
      "\<forall>x\<in>set pre. fst x \<noteq> w \<and> snd x = PeerLeft (cl_id c)"
    using join_alone [OF c ne, of now] by blast
  define s2 where "s2 = join_register now (join_local sl w rid rl) (cl_id c) rid rl"
  define sf where "sf = join_reply s2 w (cl_id c) rid rl (listParticipants (store s2) (Some rid))"
  have st2: "store s2 = multi_exec
             [SADD ROOM_INDEX_KEY rid,
              SADD (roomMembersKey rid) (cl_id c),
              HSET (clientKey (cl_id c))
                [(''id'', cl_id c), (''roomId'', rid), (''role'', rl),
                 (''serverId'', serverId s), (''updatedAt'', now)]] (store sl)"
    using ne by (simp add: s2_def join_register_def registerClient_tx al(3))
  have stf: "store sf = store s2"
    by (simp add: sf_def join_reply_def)
  have stf2: "store sf = multi_exec
             [SADD ROOM_INDEX_KEY rid,
              SADD (roomMembersKey rid) (cl_id c),
              HSET (clientKey (cl_id c))
                [(''id'', cl_id c), (''roomId'', rid), (''role'', rl),
                 (''serverId'', serverId s), (''updatedAt'', now)]] (store sl)"
    using st2 stf by simp
  note ef = register_effect [OF stf2]
  have lp: "(cl_id c, rl) \<in> set (listParticipants (store sf) (Some rid))"
    using participant_listed [OF ef(5) ef(1) ef(3) ne] .
  have lt: "last (txlog (store sf)) =
             [SADD ROOM_INDEX_KEY rid,
              SADD (roomMembersKey rid) (cl_id c),
              HSET (clientKey (cl_id c))
                [(''id'', cl_id c), (''roomId'', rid), (''role'', rl),
                 (''serverId'', serverId s), (''updatedAt'', now)]]"
    using ef(7) by simp
  have o2: "outbox s2 = outbox s @ pre" "openWs s2 = openWs s"
    by (simp_all add: s2_def join_register_def al(2,4))
  obtain rest where rest:
      "sf = s2\<lparr>outbox := outbox s2 @
                 (if openWs s2 w then [(w, Joined rid rl (listParticipants (store s2) (Some rid)))] else [])
                 @ rest\<rparr>"
      "\<forall>x\<in>set rest. fst x \<noteq> w \<and> snd x = PeerJoined (cl_id c) rl"
    using join_reply_eq [of s2 w "cl_id c" rid rl "listParticipants (store s2) (Some rid)"]
    unfolding sf_def by blast
  have "outbox sf = outbox s2 @
                 (if openWs s2 w then [(w, Joined rid rl (listParticipants (store s2) (Some rid)))] else [])
                 @ rest"
    by (subst rest(1)) simp
  then have ob: "outbox sf = outbox s @ pre
              @ (if openWs s w then [(w, Joined rid rl (listParticipants (store sf) (Some rid)))] else [])
              @ rest"
    by (simp add: o2 stf)
  have run: "async_run (Message now w (Join (Some rid) (Some rl)) # replicate 6 Resume) (s, []) = (sf, [])"
    using al(1) by (simp add: sf_def s2_def)
  have alone: "\<exists>s' pre rest.
         async_run (Message now w (Join (Some rid) (Some rl)) # replicate 6 Resume) (s, []) = (s', [])
         \<and> last (txlog (store s')) =
             [SADD ROOM_INDEX_KEY rid,
              SADD (roomMembersKey rid) (cl_id c),
              HSET (clientKey (cl_id c))
                [(''id'', cl_id c), (''roomId'', rid), (''role'', rl),
                 (''serverId'', serverId s), (''updatedAt'', now)]]
         \<and> hgetall (store s') (clientKey (cl_id c)) ''id'' = Some (cl_id c)
         \<and> hgetall (store s') (clientKey (cl_id c)) ''roomId'' = Some rid
         \<and> hgetall (store s') (clientKey (cl_id c)) ''role'' = Some rl
         \<and> hgetall (store s') (clientKey (cl_id c)) ''serverId'' = Some (serverId s)
         \<and> cl_id c \<in> set (smembers (store s') (roomMembersKey rid))
         \<and> rid \<in> set (smembers (store s') ROOM_INDEX_KEY)
         \<and> (cl_id c, rl) \<in> set (listParticipants (store s') (Some rid))
         \<and> outbox s' = outbox s @ pre
              @ (if openWs s w then [(w, Joined rid rl (listParticipants (store s') (Some rid)))] else [])
              @ rest
         \<and> (\<forall>x\<in>set pre. fst x \<noteq> w \<and> snd x = PeerLeft (cl_id c))
         \<and> (\<forall>x\<in>set rest. fst x \<noteq> w \<and> snd x = PeerJoined (cl_id c) rl)"
    by (rule exI [of _ sf], rule exI [of _ pre], rule exI [of _ rest])
       (intro conjI run lt ef(1-6) lp ob al(5) rest(2))
  show ?thesis
    by (intro conjI j1 j2 l1 l2 l3 l4 rg b1 b2 b3 b4 b5 alone)
qed

text \<open>
  The join of client-1, in no room, to room-1, and its join to room-b when it is alone in
  room-a, each run alone.
\<close>

theorem handleJoin_registers_witness:
  "(\<exists>s' pre rest.
      async_run (Message ''1700000000000'' 1 (Join (Some ''room-1'') (Some ''viewer'')) # replicate 6 Resume)
        (demo_server, []) = (s', [])
      \<and> last (txlog (store s')) =
          [SADD ROOM_INDEX_KEY ''room-1'',
           SADD (roomMembersKey ''room-1'') ''client-1'',
           HSET (clientKey ''client-1'')
             [(''id'', ''client-1''), (''roomId'', ''room-1''), (''role'', ''viewer''),
              (''serverId'', ''node-a''), (''updatedAt'', ''1700000000000'')]]
      \<and> ''client-1'' \<in> set (smembers (store s') (roomMembersKey ''room-1''))
      \<and> ''room-1'' \<in> set (smembers (store s') ROOM_INDEX_KEY)
      \<and> (''client-1'', ''viewer'') \<in> set (listParticipants (store s') (Some ''room-1''))
      \<and> outbox s' = [(1, Welcome ''client-1'')] @ pre
           @ [(1, Joined ''room-1'' ''viewer'' (listParticipants (store s') (Some ''room-1'')))] @ rest)
   \<and> handleJoin ''1700000000000'' demo_server 1 (Some ''room-1'') (Some ''viewer'')
       = Inr (start_register ''1700000000000'' demo_server 1 ''client-1'' ''room-1'' ''viewer'')
   \<and> (\<exists>s1 r0. r0 \<noteq> [] \<and> handleJoin ''1700000000001'' demo_joined 1 (Some ''room-b'') (Some ''viewer'')
                 = Inr (s1, [AwaitRemoveTx 1 ''client-1'' r0 (K_join ''1700000000001'' ''room-b'' ''viewer'')]))
   \<and> (\<exists>s' pre rest.
      async_run (Message ''1700000000001'' 1 (Join (Some ''room-b'') (Some ''viewer'')) # replicate 6 Resume)
        (demo_joined, []) = (s', [])
      \<and> ''client-1'' \<in> set (smembers (store s') (roomMembersKey ''room-b''))
      \<and> (''client-1'', ''viewer'') \<in> set (listParticipants (store s') (Some ''room-b''))
      \<and> outbox s' = outbox demo_joined @ pre
           @ [(1, Joined ''room-b'' ''viewer'' (listParticipants (store s') (Some ''room-b'')))] @ rest)"
proof -
  let ?c = "\<lparr>cl_id = ''client-1'', cl_roomId = None, cl_role = None\<rparr>"
  have ne: "cl_id ?c \<noteq> []" "''room-1'' \<noteq> []" "''viewer'' \<noteq> []" "cl_id demo_client \<noteq> []" "''room-b'' \<noteq> []"
    by (simp_all add: demo_client_def)
  note t1 = handleJoin_registers [OF demo_server_facts(1) ne(1,2,3),
      where now = "''1700000000000''" and ?r0.0 = "''room-a''" and ?s0.0 = demo_server and n = 1
        and ids = "[''client-1'']" and ps = "[]" and r = redis_empty]
  note t2 = handleJoin_registers [OF demo_joined_facts(1) ne(4,5,3),
      where now = "''1700000000001''" and ?r0.0 = "''room-a''" and ?s0.0 = demo_server and n = 1
        and ids = "[''client-1'']" and ps = "[]" and r = redis_empty]
  have a: "\<exists>s' pre rest.
      async_run (Message ''1700000000000'' 1 (Join (Some ''room-1'') (Some ''viewer'')) # replicate 6 Resume)
        (demo_server, []) = (s', [])
      \<and> last (txlog (store s')) =
          [SADD ROOM_INDEX_KEY ''room-1'',
           SADD (roomMembersKey ''room-1'') ''client-1'',
           HSET (clientKey ''client-1'')
             [(''id'', ''client-1''), (''roomId'', ''room-1''), (''role'', ''viewer''),
              (''serverId'', ''node-a''), (''updatedAt'', ''1700000000000'')]]
      \<and> ''client-1'' \<in> set (smembers (store s') (roomMembersKey ''room-1''))
      \<and> ''room-1'' \<in> set (smembers (store s') ROOM_INDEX_KEY)
      \<and> (''client-1'', ''viewer'') \<in> set (listParticipants (store s') (Some ''room-1''))
      \<and> outbox s' = [(1, Welcome ''client-1'')] @ pre
           @ [(1, Joined ''room-1'' ''viewer'' (listParticipants (store s') (Some ''room-1'')))] @ rest"
    using t1 demo_server_facts(5,6,7) by (simp del: replicate_Suc replicate.simps) blast
  have b: "handleJoin ''1700000000000'' demo_server 1 (Some ''room-1'') (Some ''viewer'')
       = Inr (start_register ''1700000000000'' demo_server 1 ''client-1'' ''room-1'' ''viewer'')"
    using t1 by simp
  have c: "\<exists>s1 r0. r0 \<noteq> [] \<and> handleJoin ''1700000000001'' demo_joined 1 (Some ''room-b'') (Some ''viewer'')
                 = Inr (s1, [AwaitRemoveTx 1 ''client-1'' r0 (K_join ''1700000000001'' ''room-b'' ''viewer'')])"
    using t2 by (simp add: demo_client_def)
  have d: "\<exists>s' pre rest.
      async_run (Message ''1700000000001'' 1 (Join (Some ''room-b'') (Some ''viewer'')) # replicate 6 Resume)
        (demo_joined, []) = (s', [])
      \<and> ''client-1'' \<in> set (smembers (store s') (roomMembersKey ''room-b''))
      \<and> (''client-1'', ''viewer'') \<in> set (listParticipants (store s') (Some ''room-b''))
      \<and> outbox s' = outbox demo_joined @ pre
           @ [(1, Joined ''room-b'' ''viewer'' (listParticipants (store s') (Some ''room-b'')))] @ rest"
    using t2 demo_joined_facts(4) by (simp add: demo_client_def del: replicate_Suc replicate.simps) blast
  show ?thesis using a b c d by blast
qed

text \<open>
  The list that \<open>joined\<close> carries is the member set as the store holds it when it is
  read. Here the collection issued by an overlapping leave is served between the
  registration and the read: the registration is in the log, and \<open>joined\<close> carries the
  empty list.
\<close>

lemma join_after_collection:
  "length (snd (async_run leave_collects_join (server_init ''node-a'', []))) = 0
   \<and> [SADD ROOM_INDEX_KEY ''room-a'',
       SADD (roomMembersKey ''room-a'') ''client-2'',
       HSET (clientKey ''client-2'')
         [(''id'', ''client-2''), (''roomId'', ''room-a''), (''role'', ''viewer''),
          (''serverId'', ''node-a''), (''updatedAt'', ''1700000000002'')]]
       \<in> set (txlog (store (fst (async_run leave_collects_join (server_init ''node-a'', [])))))
   \<and> last (outbox (fst (async_run leave_collects_join (server_init ''node-a'', []))))
       = (2, Joined ''room-a'' ''viewer'' [])
   \<and> smembers (store (fst (async_run leave_collects_join (server_init ''node-a'', [])))) (roomMembersKey ''room-a'')
       = []"
  by code_simp

section \<open>Empty rooms are collected\<close>







section \<open>Delivery from the relay channel\<close>

text \<open>
  C6, as amended. A payload from the relay channel that names this node as target, was
  published by another node, names a client in this node's client map whose socket is
  open, and carries a message: exactly one frame, that message to that client, is
  appended to the outbox, and nothing else changes. In every other case (another target
  node, this node as origin, no target id, no such client in the client map, its socket
  not open, no message, or a payload that is \<open>null\<close>), whatever kind of message the
  payload carries, the server state is exactly what it was: no frame goes to any client
  and nothing is published, so nobody is notified.
\<close>

theorem handleRelayDelivery_amended:
  "(targetServerId p = Some (serverId s) \<and> originServerId p \<noteq> Some (serverId s)
      \<and> targetId p = Some t \<and> findClientById s t = Some tw \<and> message p = Some m
      \<and> openWs s tw
      \<longrightarrow> handleRelayDelivery s (Some p) = s\<lparr>outbox := outbox s @ [(tw, m)]\<rparr>)
   \<and> (targetServerId p \<noteq> Some (serverId s) \<or> originServerId p = Some (serverId s)
        \<or> targetId p = None \<or> (targetId p = Some t' \<and> findClientById s t' = None)
        \<or> (targetId p = Some t' \<and> findClientById s t' = Some tw' \<and> \<not> openWs s tw')
        \<or> message p = None
      \<longrightarrow> handleRelayDelivery s (Some p) = s)
   \<and> handleRelayDelivery s None = s"
  by (auto simp add: handleRelayDelivery_def send_def split: option.splits)

lemma demo_closed_facts:
  "findClientById demo_closed ''client-1'' = Some 1"
  "\<not> openWs demo_closed 1"
  "serverId demo_closed = ''node-a''"
  by (simp_all add: demo_closed_def demo_server_def on_connection_def server_init_def send_def
        findClientById_def)

theorem handleRelayDelivery_amended_witness:
  "handleRelayDelivery demo_server
     (Some \<lparr>originServerId = Some ''node-b'', targetServerId = Some ''node-a'',
            targetId = Some ''client-1'', message = Some (OfferMsg ''client-2'' (JStr ''v=0''))\<rparr>)
   = demo_server\<lparr>outbox := [(1, Welcome ''client-1''), (1, OfferMsg ''client-2'' (JStr ''v=0''))]\<rparr>
   \<and> handleRelayDelivery demo_server
     (Some \<lparr>originServerId = Some ''node-b'', targetServerId = Some ''node-a'',
            targetId = Some ''ghost'', message = Some (OfferMsg ''client-2'' (JStr ''v=0''))\<rparr>)
   = demo_server
   \<and> handleRelayDelivery demo_closed
     (Some \<lparr>originServerId = Some ''node-b'', targetServerId = Some ''node-a'',
            targetId = Some ''client-1'', message = Some (OfferMsg ''client-2'' (JStr ''v=0''))\<rparr>)
   = demo_closed"
  using handleRelayDelivery_amended [of
     "\<lparr>originServerId = Some ''node-b'', targetServerId = Some ''node-a'',
            targetId = Some ''client-1'', message = Some (OfferMsg ''client-2'' (JStr ''v=0''))\<rparr>"
     demo_server "''client-1''" 1 "OfferMsg ''client-2'' (JStr ''v=0'')" "''ghost''" 1]
    handleRelayDelivery_amended [of
     "\<lparr>originServerId = Some ''node-b'', targetServerId = Some ''node-a'',
            targetId = Some ''ghost'', message = Some (OfferMsg ''client-2'' (JStr ''v=0''))\<rparr>"
     demo_server "''client-1''" 1 "OfferMsg ''client-2'' (JStr ''v=0'')" "''ghost''" 1]
    handleRelayDelivery_amended [of
     "\<lparr>originServerId = Some ''node-b'', targetServerId = Some ''node-a'',
            targetId = Some ''client-1'', message = Some (OfferMsg ''client-2'' (JStr ''v=0''))\<rparr>"
     demo_closed "''client-1''" 1 "OfferMsg ''client-2'' (JStr ''v=0'')" "''client-1''" 1]
    demo_server_facts(2,3,5,6,7) demo_closed_facts
  by simp

text \<open>
  A payload for this node and a connected client that this node published itself is not
  delivered; an ice-candidate and an offer for a client that is not connected are
  dropped without a notification to anyone.
\<close>

theorem relay_delivery_counterexample:
  "targetServerId \<lparr>originServerId = Some ''node-a'', targetServerId = Some ''node-a'',
            targetId = Some ''client-1'', message = Some (OfferMsg ''client-2'' (JStr ''v=0''))\<rparr>
     = Some (serverId demo_server)
   \<and> findClientById demo_server ''client-1'' = Some 1
   \<and> openWs demo_server 1
   \<and> outbox (handleRelayDelivery demo_server
       (Some \<lparr>originServerId = Some ''node-a'', targetServerId = Some ''node-a'',
            targetId = Some ''client-1'', message = Some (OfferMsg ''client-2'' (JStr ''v=0''))\<rparr>))
     = outbox demo_server
   \<and> handleRelayDelivery demo_server
       (Some \<lparr>originServerId = Some ''node-b'', targetServerId = Some ''node-a'',
            targetId = Some ''ghost'', message = Some (IceCandidateMsg ''client-2'' (JStr ''candidate:1''))\<rparr>)
     = demo_server
   \<and> handleRelayDelivery demo_server
       (Some \<lparr>originServerId = Some ''node-b'', targetServerId = Some ''node-a'',
            targetId = Some ''ghost'', message = Some (OfferMsg ''client-2'' (JStr ''v=0''))\<rparr>)
     = demo_server"
  using demo_server_facts(2,3,5,6)
  by (simp add: handleRelayDelivery_def)

section \<open>A node's own relay payloads\<close>

text \<open>
  C10. A payload from the relay channel whose originServerId is the receiving node's own
  serverId leaves the server state as it was: in particular no frame is sent to any
  client.
\<close>

theorem handleRelayDelivery_own_origin:
  assumes "originServerId p = Some (serverId s)"
  shows "handleRelayDelivery s (Some p) = s"
  using assms by (simp add: handleRelayDelivery_def)

theorem handleRelayDelivery_own_origin_witness:
  "handleRelayDelivery demo_server
     (Some \<lparr>originServerId = Some ''node-a'', targetServerId = Some ''node-a'',
            targetId = Some ''client-1'', message = Some (OfferMsg ''client-2'' (JStr ''v=0''))\<rparr>)
   = demo_server"
  using handleRelayDelivery_own_origin [of
     "\<lparr>originServerId = Some ''node-a'', targetServerId = Some ''node-a'',
            targetId = Some ''client-1'', message = Some (OfferMsg ''client-2'' (JStr ''v=0''))\<rparr>" demo_server]
    demo_server_facts(6)
  by simp

section \<open>Binding a document to the substrate\<close>

lemma writeState_fields [simp]:
  "listeners (writeState lib t n p) = listeners p" "prefix (writeState lib t n p) = prefix p"
  "ydoc (writeState lib t n p) = ydoc p"
  "docKey (writeState lib t n p) m = docKey p m"
  by (simp_all add: writeState_def docKey_def Let_def)

lemma writeState_effect:
  "setlog (writeState lib t n p)
     = setlog p @ [(t, docKey p n, toBase64 lib (encodeStateAsUpdate lib (ydoc p)))]"
  "kv (writeState lib t n p) k
     = (if k = docKey p n then Some (toBase64 lib (encodeStateAsUpdate lib (ydoc p))) else kv p k)"
  by (simp_all add: writeState_def Let_def)

lemma fold_writeState:
  "listeners (fold (writeState lib t) ns p) = listeners p
   \<and> prefix (fold (writeState lib t) ns p) = prefix p
   \<and> ydoc (fold (writeState lib t) ns p) = ydoc p
   \<and> setlog (fold (writeState lib t) ns p)
       = setlog p @ map (\<lambda>n. (t, docKey p n, toBase64 lib (encodeStateAsUpdate lib (ydoc p)))) ns
   \<and> (\<forall>n\<in>set ns. kv (fold (writeState lib t) ns p) (docKey p n)
         = Some (toBase64 lib (encodeStateAsUpdate lib (ydoc p))))"
proof (induction ns arbitrary: p rule: rev_induct)
  case Nil
  then show ?case by simp
next
  case (snoc a ns)
  let ?q = "fold (writeState lib t) ns p"
  have q: "listeners ?q = listeners p" "prefix ?q = prefix p" "ydoc ?q = ydoc p"
    "setlog ?q = setlog p @ map (\<lambda>n. (t, docKey p n, toBase64 lib (encodeStateAsUpdate lib (ydoc p)))) ns"
    "\<forall>n\<in>set ns. kv ?q (docKey p n) = Some (toBase64 lib (encodeStateAsUpdate lib (ydoc p)))"
    using snoc.IH [of p] by simp_all
  have k: "\<And>m. docKey ?q m = docKey p m"
    using q(2) by (simp add: docKey_def)
  show ?case
    using q by (simp add: writeState_effect k)
qed

lemma on_update_effect:
  "listeners (on_update lib ev p) = listeners p"
  "prefix (on_update lib ev p) = prefix p"
  "ydoc (on_update lib ev p) = snd ev"
  "setlog (on_update lib ev p)
     = setlog p @ map (\<lambda>n. (fst ev, docKey p n, toBase64 lib (encodeStateAsUpdate lib (snd ev)))) (listeners p)"
  "n \<in> set (listeners p) \<Longrightarrow>
     kv (on_update lib ev p) (docKey p n) = Some (toBase64 lib (encodeStateAsUpdate lib (snd ev)))"
  using fold_writeState [of lib "fst ev" "listeners p" "p\<lparr>ydoc := snd ev\<rparr>"]
  by (simp_all add: on_update_def emit_update_def docKey_def)

lemma updates_written:
  "listeners (fold (on_update lib) evs p) = listeners p
   \<and> prefix (fold (on_update lib) evs p) = prefix p
   \<and> setlog (fold (on_update lib) evs p)
       = setlog p @ concat (map (\<lambda>ev. map (\<lambda>n. (fst ev, docKey p n,
                                  toBase64 lib (encodeStateAsUpdate lib (snd ev)))) (listeners p)) evs)
   \<and> (evs \<noteq> [] \<longrightarrow> (\<forall>n\<in>set (listeners p). kv (fold (on_update lib) evs p) (docKey p n)
         = Some (toBase64 lib (encodeStateAsUpdate lib (snd (last evs))))))"
proof (induction evs arbitrary: p rule: rev_induct)
  case Nil
  then show ?case by simp
next
  case (snoc ev evs)
  let ?q = "fold (on_update lib) evs p"
  have q: "listeners ?q = listeners p" "prefix ?q = prefix p"
    "setlog ?q = setlog p @ concat (map (\<lambda>ev. map (\<lambda>n. (fst ev, docKey p n,
                                  toBase64 lib (encodeStateAsUpdate lib (snd ev)))) (listeners p)) evs)"
    using snoc.IH [of p] by simp_all
  have k: "\<And>m. docKey ?q m = docKey p m"
    using q(2) by (simp add: docKey_def)
  have kvs: "\<forall>n\<in>set (listeners p). kv (on_update lib ev ?q) (docKey p n)
         = Some (toBase64 lib (encodeStateAsUpdate lib (snd ev)))"
    using on_update_effect(5) [of _ ?q lib ev] q(1) k by simp
  show ?case
    using q kvs by (simp add: on_update_effect k)
qed

lemma bindState_fields:
  assumes "bindState lib t docName p = Inr p1"
  shows "listeners p1 = listeners p @ [docName]" "prefix p1 = prefix p"
  using assms fold_writeState [of lib t "listeners p"]
  by (auto simp add: bindState_def loadState_def emit_update_def
        split: option.splits if_splits sum.splits)

text \<open>
  C7, as amended. Binding a document: with no stored state, or an empty one, the document
  is left as it is; with a stored state the document becomes what \<open>applyUpdate\<close> makes of
  it and the decoded state; in both cases one listener for the document name is added to
  the listeners that earlier bindings have registered. If \<open>applyUpdate\<close> throws, the
  binding fails and no listener is added. After that, every update event of the
  document makes every registered listener issue one \<open>SET\<close> of its own, at the time of
  the event, with the full encoded state of the document at that event: the log of
  writes grows by one entry per event and listener, in order, and the value stored under
  the key of every registered document name is the encoding of the last state. For a
  document bound once that is exactly one write per update event. No write is delayed
  or merged with another.
\<close>

theorem bindState_write_through:
  "(kv p (docKey p docName) = None \<or> kv p (docKey p docName) = Some []
      \<longrightarrow> bindState lib t docName p = Inr (p\<lparr>listeners := listeners p @ [docName]\<rparr>))
   \<and> (kv p (docKey p docName) = Some payload \<and> payload \<noteq> []
        \<and> applyUpdate lib (ydoc p) (fromBase64 lib payload) = Some (d, emitted)
      \<longrightarrow> (\<exists>p1. bindState lib t docName p = Inr p1 \<and> ydoc p1 = d
              \<and> listeners p1 = listeners p @ [docName] \<and> prefix p1 = prefix p
              \<and> (listeners p = [] \<longrightarrow> p1 = p\<lparr>ydoc := d, listeners := [docName]\<rparr>)))
   \<and> (kv p (docKey p docName) = Some payload \<and> payload \<noteq> []
        \<and> applyUpdate lib (ydoc p) (fromBase64 lib payload) = None
      \<longrightarrow> bindState lib t docName p = Inl DecodeError)
   \<and> (bindState lib t docName p = Inr q
      \<longrightarrow> docName \<in> set (listeners q)
        \<and> setlog (fold (on_update lib) evs q)
            = setlog q @ concat (map (\<lambda>ev. map (\<lambda>n. (fst ev, docKey q n,
                                   toBase64 lib (encodeStateAsUpdate lib (snd ev)))) (listeners q)) evs)
        \<and> (evs \<noteq> [] \<longrightarrow> (\<forall>n\<in>set (listeners q). kv (fold (on_update lib) evs q) (docKey q n)
              = Some (toBase64 lib (encodeStateAsUpdate lib (snd (last evs))))))
        \<and> (listeners p = [] \<longrightarrow>
             setlog (fold (on_update lib) evs q)
               = setlog q @ map (\<lambda>ev. (fst ev, docKey q docName,
                                         toBase64 lib (encodeStateAsUpdate lib (snd ev)))) evs))"
proof (intro conjI impI)
  assume "kv p (docKey p docName) = None \<or> kv p (docKey p docName) = Some []"
  then show "bindState lib t docName p = Inr (p\<lparr>listeners := listeners p @ [docName]\<rparr>)"
    by (auto simp add: bindState_def loadState_def)
next
  assume a: "kv p (docKey p docName) = Some payload \<and> payload \<noteq> []
            \<and> applyUpdate lib (ydoc p) (fromBase64 lib payload) = Some (d, emitted)"
  define p0 where "p0 = (if emitted then emit_update lib t (p\<lparr>ydoc := d\<rparr>) else p\<lparr>ydoc := d\<rparr>)"
  have b: "bindState lib t docName p = Inr (p0\<lparr>listeners := listeners p0 @ [docName]\<rparr>)"
    using a by (simp add: bindState_def loadState_def p0_def)
  have f: "ydoc p0 = d" "listeners p0 = listeners p" "prefix p0 = prefix p"
    using fold_writeState [of lib t "listeners p" "p\<lparr>ydoc := d\<rparr>"]
    by (simp_all add: p0_def emit_update_def)
  have e: "listeners p = [] \<longrightarrow> p0 = p\<lparr>ydoc := d\<rparr>"
    by (simp add: p0_def emit_update_def)
  show "\<exists>p1. bindState lib t docName p = Inr p1 \<and> ydoc p1 = d
              \<and> listeners p1 = listeners p @ [docName] \<and> prefix p1 = prefix p
              \<and> (listeners p = [] \<longrightarrow> p1 = p\<lparr>ydoc := d, listeners := [docName]\<rparr>)"
    using b f e by (intro exI [of _ "p0\<lparr>listeners := listeners p0 @ [docName]\<rparr>"]) auto
next
  assume "kv p (docKey p docName) = Some payload \<and> payload \<noteq> []
        \<and> applyUpdate lib (ydoc p) (fromBase64 lib payload) = None"
  then show "bindState lib t docName p = Inl DecodeError"
    by (simp add: bindState_def loadState_def)
next
  assume b: "bindState lib t docName p = Inr q"
  show "docName \<in> set (listeners q)"
    using bindState_fields(1) [OF b] by simp
  show "setlog (fold (on_update lib) evs q)
            = setlog q @ concat (map (\<lambda>ev. map (\<lambda>n. (fst ev, docKey q n,
                                   toBase64 lib (encodeStateAsUpdate lib (snd ev)))) (listeners q)) evs)"
    using updates_written [of lib evs q] by simp
  {
    assume "evs \<noteq> []"
    then show "\<forall>n\<in>set (listeners q). kv (fold (on_update lib) evs q) (docKey q n)
              = Some (toBase64 lib (encodeStateAsUpdate lib (snd (last evs))))"
      using updates_written [of lib evs q] by simp
  }
  {
    assume "listeners p = []"
    then have "listeners q = [docName]"
      using bindState_fields(1) [OF b] by simp
    then show "setlog (fold (on_update lib) evs q)
               = setlog q @ map (\<lambda>ev. (fst ev, docKey q docName,
                                         toBase64 lib (encodeStateAsUpdate lib (snd ev)))) evs"
      using updates_written [of lib evs q] by (simp add: concat_map_singleton)
  }
qed

lemma toy_bind:
  "bindState toy_yjs 0 ''doc-123'' toy_persistence
     = Inr (toy_persistence\<lparr>ydoc := ''hello'', listeners := [''doc-123'']\<rparr>)"
  by (simp add: bindState_def loadState_def emit_update_def toy_yjs_def toy_persistence_def docKey_def)

text \<open>
  The stored document is bound once and updated twice; another document without stored
  state is bound; a document bound a second time is written twice at its next update.
\<close>

theorem bindState_write_through_witness:
  "bindState toy_yjs 0 ''doc-123'' toy_persistence
     = Inr (toy_persistence\<lparr>ydoc := ''hello'', listeners := [''doc-123'']\<rparr>)
   \<and> bindState toy_yjs 0 ''doc-9'' toy_persistence = Inr (toy_persistence\<lparr>listeners := [''doc-9'']\<rparr>)
   \<and> setlog (fold (on_update toy_yjs) [(10, ''hello w''), (70, ''hello world'')]
        (toy_persistence\<lparr>ydoc := ''hello'', listeners := [''doc-123'']\<rparr>))
       = [(10, ''collab:yjs:doc:doc-123'', ''hello w''), (70, ''collab:yjs:doc:doc-123'', ''hello world'')]
   \<and> kv (fold (on_update toy_yjs) [(10, ''hello w''), (70, ''hello world'')]
        (toy_persistence\<lparr>ydoc := ''hello'', listeners := [''doc-123'']\<rparr>)) ''collab:yjs:doc:doc-123''
       = Some ''hello world''
   \<and> bindState toy_yjs 5 ''doc-9'' (toy_persistence\<lparr>listeners := [''doc-9'']\<rparr>)
       = Inr (toy_persistence\<lparr>listeners := [''doc-9'', ''doc-9'']\<rparr>)
   \<and> setlog (fold (on_update toy_yjs) [(10, ''a'')] (toy_persistence\<lparr>listeners := [''doc-9'', ''doc-9'']\<rparr>))
       = [(10, ''collab:yjs:doc:doc-9'', ''a''), (10, ''collab:yjs:doc:doc-9'', ''a'')]"
proof -
  have a: "kv toy_persistence (docKey toy_persistence ''doc-123'') = Some ''hello'' \<and> ''hello'' \<noteq> []
            \<and> applyUpdate toy_yjs (ydoc toy_persistence) (fromBase64 toy_yjs ''hello'')
                = Some (''hello'', True)"
    by (simp add: toy_persistence_def toy_yjs_def docKey_def)
  have b: "kv toy_persistence (docKey toy_persistence ''doc-9'') = None"
    by (simp add: toy_persistence_def docKey_def)
  have b': "kv (toy_persistence\<lparr>listeners := [''doc-9'']\<rparr>)
              (docKey (toy_persistence\<lparr>listeners := [''doc-9'']\<rparr>) ''doc-9'') = None"
    by (simp add: toy_persistence_def docKey_def)
  have l: "listeners toy_persistence = []"
    by (simp add: toy_persistence_def)
  note t1 = bindState_write_through [where p = toy_persistence and docName = "''doc-123''"
      and payload = "''hello''" and lib = toy_yjs and d = "''hello''" and emitted = True and t = 0
      and q = "toy_persistence\<lparr>ydoc := ''hello'', listeners := [''doc-123'']\<rparr>"
      and evs = "[(10, ''hello w''), (70, ''hello world'')]"]
  note t2 = bindState_write_through [where p = toy_persistence and docName = "''doc-9''"
      and payload = "''hello''" and lib = toy_yjs and d = "''hello''" and emitted = True and t = 0
      and q = "toy_persistence\<lparr>listeners := [''doc-9'']\<rparr>"
      and evs = "[(10, ''a'')]"]
  note t3 = bindState_write_through [where p = "toy_persistence\<lparr>listeners := [''doc-9'']\<rparr>"
      and docName = "''doc-9''"
      and payload = "''hello''" and lib = toy_yjs and d = "''hello''" and emitted = True and t = 5
      and q = "toy_persistence\<lparr>listeners := [''doc-9'', ''doc-9'']\<rparr>"
      and evs = "[(10, ''a'')]"]
  have c1: "bindState toy_yjs 0 ''doc-123'' toy_persistence
     = Inr (toy_persistence\<lparr>ydoc := ''hello'', listeners := [''doc-123'']\<rparr>)"
    using t1 a l by auto
  have c2: "bindState toy_yjs 0 ''doc-9'' toy_persistence = Inr (toy_persistence\<lparr>listeners := [''doc-9'']\<rparr>)"
    using t2 b l by simp
  have c3: "setlog (fold (on_update toy_yjs) [(10, ''hello w''), (70, ''hello world'')]
        (toy_persistence\<lparr>ydoc := ''hello'', listeners := [''doc-123'']\<rparr>))
       = [(10, ''collab:yjs:doc:doc-123'', ''hello w''), (70, ''collab:yjs:doc:doc-123'', ''hello world'')]"
    and c4: "kv (fold (on_update toy_yjs) [(10, ''hello w''), (70, ''hello world'')]
        (toy_persistence\<lparr>ydoc := ''hello'', listeners := [''doc-123'']\<rparr>)) ''collab:yjs:doc:doc-123''
       = Some ''hello world''"
    using t1 c1 by (simp_all add: toy_persistence_def toy_yjs_def docKey_def)
  have c5: "bindState toy_yjs 5 ''doc-9'' (toy_persistence\<lparr>listeners := [''doc-9'']\<rparr>)
       = Inr (toy_persistence\<lparr>listeners := [''doc-9'', ''doc-9'']\<rparr>)"
    using t3 b' by simp
  have c6: "setlog (fold (on_update toy_yjs) [(10, ''a'')] (toy_persistence\<lparr>listeners := [''doc-9'', ''doc-9'']\<rparr>))
       = [(10, ''collab:yjs:doc:doc-9'', ''a''), (10, ''collab:yjs:doc:doc-9'', ''a'')]"
    using t3 c5 by (simp add: toy_persistence_def toy_yjs_def docKey_def)
  show ?thesis using c1 c2 c3 c4 c5 c6 by blast
qed

text \<open>
  A document bound at time 0 is updated at 10, 11 and 12 milliseconds: three \<open>SET\<close>
  commands are issued, at 10, 11 and 12 milliseconds, the first two with intermediate
  states.
\<close>

theorem no_coalescing_counterexample:
  "bindState toy_yjs 0 ''doc-123'' toy_persistence
     = Inr (toy_persistence\<lparr>ydoc := ''hello'', listeners := [''doc-123'']\<rparr>)
   \<and> setlog (fold (on_update toy_yjs) [(10, ''hello w''), (11, ''hello wo''), (12, ''hello world'')]
        (toy_persistence\<lparr>ydoc := ''hello'', listeners := [''doc-123'']\<rparr>))
       = [(10, ''collab:yjs:doc:doc-123'', ''hello w''),
          (11, ''collab:yjs:doc:doc-123'', ''hello wo''),
          (12, ''collab:yjs:doc:doc-123'', ''hello world'')]"
  by (simp add: toy_bind)
     (simp add: on_update_def emit_update_def writeState_def toy_persistence_def toy_yjs_def
        docKey_def Let_def)

section \<open>Awareness changes and their origin\<close>

lemma handler_fields [simp]:
  "boundDocs (handler lib n aw ch org ra) = boundDocs ra"
  "ra_origin (handler lib n aw ch org ra) = ra_origin ra"
  "ra_prefix (handler lib n aw ch org ra) = ra_prefix ra"
  by (simp_all add: handler_def Let_def)

lemma awareness_update_own_origin:
  "ra_published (awareness_update lib n aw ch (ra_origin ra) ra) = ra_published ra"
  by (simp add: awareness_update_def handler_def split: option.splits)

lemma ra_handleMessage_silent:
  "ra_published (ra_handleMessage lib channel payload ra) = ra_published ra"
  by (simp add: ra_handleMessage_def awareness_update_own_origin Let_def split: option.splits)

lemma channelName_split:
  "take (length (ra_prefix ra)) (channelName ra n) = ra_prefix ra"
  "drop (Suc (length (ra_prefix ra))) (channelName ra n) = n"
  by (simp_all add: channelName_def)

text \<open>
  C8. For a watched document: an awareness change whose origin is the relay's own marker
  publishes nothing; a change with any other origin and a non-empty list of changed
  clients publishes exactly one message on the document's channel, the encoded update
  of those clients; an inbound message on the document's channel is applied to the
  local awareness, and no inbound message, on whatever channel, publishes anything,
  since the change it causes carries the relay's marker.
\<close>

theorem awareness_relay_origin:
  assumes "map_of (boundDocs ra) docName = Some aw0"
  shows "ra_published (awareness_update lib docName aw ch (ra_origin ra) ra) = ra_published ra
       \<and> (org \<noteq> ra_origin ra \<and> fst ch @ fst (snd ch) @ snd (snd ch) \<noteq> []
            \<longrightarrow> ra_published (awareness_update lib docName aw ch org ra)
                  = ra_published ra @
                      [(channelName ra docName,
                        aw_toBase64 lib (encodeAwarenessUpdate lib aw
                          (fst ch @ fst (snd ch) @ snd (snd ch))))])
       \<and> (payload \<noteq> [] \<and> applyAwarenessUpdate lib aw0 (aw_fromBase64 lib payload) = Some (aw', ch')
            \<longrightarrow> map_of (boundDocs (ra_handleMessage lib (channelName ra docName) (Some payload) ra)) docName
                  = Some aw'
              \<and> ra_published (ra_handleMessage lib (channelName ra docName) (Some payload) ra)
                  = ra_published ra)
       \<and> ra_published (ra_handleMessage lib channel inbound ra) = ra_published ra"
proof (intro conjI impI)
  show "ra_published (awareness_update lib docName aw ch (ra_origin ra) ra) = ra_published ra"
    by (rule awareness_update_own_origin)
next
  assume "org \<noteq> ra_origin ra \<and> fst ch @ fst (snd ch) @ snd (snd ch) \<noteq> []"
  then show "ra_published (awareness_update lib docName aw ch org ra)
                  = ra_published ra @
                      [(channelName ra docName,
                        aw_toBase64 lib (encodeAwarenessUpdate lib aw
                          (fst ch @ fst (snd ch) @ snd (snd ch))))]"
    using assms by (simp add: awareness_update_def handler_def channelName_def Let_def)
next
  assume a: "payload \<noteq> [] \<and> applyAwarenessUpdate lib aw0 (aw_fromBase64 lib payload) = Some (aw', ch')"
  then show "map_of (boundDocs (ra_handleMessage lib (channelName ra docName) (Some payload) ra)) docName
                  = Some aw'"
    using assms
    by (simp add: ra_handleMessage_def channelName_split awareness_update_def update_conv' Let_def)
  show "ra_published (ra_handleMessage lib (channelName ra docName) (Some payload) ra) = ra_published ra"
    by (rule ra_handleMessage_silent)
next
  show "ra_published (ra_handleMessage lib channel inbound ra) = ra_published ra"
    by (rule ra_handleMessage_silent)
qed

lemma toy_relay_facts:
  "map_of (boundDocs toy_relay) ''doc-1'' = Some []"
  "ra_origin toy_relay = SymbolOrigin 0"
  "ra_published toy_relay = []"
  "channelName toy_relay ''doc-1'' = ''collab:yjs:awareness:doc-1''"
  by (simp_all add: toy_relay_def watch_def channelName_def)

theorem awareness_relay_origin_witness:
  "ra_published (awareness_update toy_awareness_lib ''doc-1'' [3] ([3], [], []) (SymbolOrigin 0) toy_relay) = []
   \<and> ra_published (awareness_update toy_awareness_lib ''doc-1'' [3] ([3], [], []) (OtherOrigin ''ws'') toy_relay)
       = [(''collab:yjs:awareness:doc-1'', ''uuu'')]
   \<and> map_of (boundDocs (ra_handleMessage toy_awareness_lib ''collab:yjs:awareness:doc-1'' (Some ''uu'') toy_relay))
        ''doc-1'' = Some [2]
   \<and> ra_published (ra_handleMessage toy_awareness_lib ''collab:yjs:awareness:doc-1'' (Some ''uu'') toy_relay) = []"
proof -
  note t = awareness_relay_origin [OF toy_relay_facts(1), where lib = toy_awareness_lib
      and aw = "[3]" and ch = "([3], [], [])" and org = "OtherOrigin ''ws''" and payload = "''uu''"
      and aw' = "[2]" and ch' = "([2], [], [])"
      and channel = "''collab:yjs:awareness:doc-1''" and inbound = "Some ''uu''"]
  have a: "applyAwarenessUpdate toy_awareness_lib [] (aw_fromBase64 toy_awareness_lib ''uu'')
             = Some ([2], ([2], [], []))"
    by (simp add: toy_awareness_lib_def)
  have e: "aw_toBase64 toy_awareness_lib (encodeAwarenessUpdate toy_awareness_lib [3] [3]) = ''uuu''"
    by (simp add: toy_awareness_lib_def numeral_3_eq_3)
  show ?thesis
    using t a e by (simp add: toy_relay_facts)
qed

section \<open>One room per client\<close>

text \<open>
  C5 at the failing input. A client is in room-a and its join has settled: no handler is
  suspended and the member set of room-a is the client alone. It then sends a join for
  room-b and a join for room-c back to back. When all handlers have finished, the client
  id is in the member set of room-b and in the member set of room-c, and its socket is in
  both rooms of the node's room map, while its own record names room-c: the client
  belongs to two rooms.
\<close>

theorem racing_joins_two_rooms:
  "length (snd (async_run settled_join (server_init ''node-a'', []))) = 0
   \<and> smembers (store (fst (async_run settled_join (server_init ''node-a'', [])))) (roomMembersKey ''room-a'')
       = [''client-1'']
   \<and> length (snd (async_run racing_joins (server_init ''node-a'', []))) = 0
   \<and> smembers (store (fst (async_run racing_joins (server_init ''node-a'', [])))) (roomMembersKey ''room-b'')
       = [''client-1'']
   \<and> smembers (store (fst (async_run racing_joins (server_init ''node-a'', [])))) (roomMembersKey ''room-c'')
       = [''client-1'']
   \<and> rooms (fst (async_run racing_joins (server_init ''node-a'', []))) ''room-b'' = Some [1]
   \<and> rooms (fst (async_run racing_joins (server_init ''node-a'', []))) ''room-c'' = Some [1]
   \<and> map (cl_roomId \<circ> snd) (clients (fst (async_run racing_joins (server_init ''node-a'', []))))
       = [Some ''room-c'']"
  by code_simp

text \<open>The same joins, one at a time, leave the client in room-c only.\<close>

lemma serial_joins_one_room:
  "length (snd (async_run serial_joins (server_init ''node-a'', []))) = 0
   \<and> smembers (store (fst (async_run serial_joins (server_init ''node-a'', [])))) (roomMembersKey ''room-a'') = []
   \<and> smembers (store (fst (async_run serial_joins (server_init ''node-a'', [])))) (roomMembersKey ''room-b'') = []
   \<and> smembers (store (fst (async_run serial_joins (server_init ''node-a'', [])))) (roomMembersKey ''room-c'')
       = [''client-1'']"
  by code_simp

end
